theory Spec2Isabelle
  imports Complex_Main
begin

section \<open>JavaScript values\<close>

text \<open>
  The review script \<^verbatim>\<open>scripts/pr-review-agent.mjs\<close> is dynamically typed: every message
  that the agent runtime delivers is an arbitrary JavaScript value, and the script reads
  its fields without checking them. The values are modelled as the JSON-like fragment of
  JavaScript:
  \<^item> a number is given by its exact rational value (every finite double is a rational;
    \<open>NaN\<close> and the infinities do not occur in decoded JSON text, and \<open>-0\<close> prints and
    compares like \<open>0\<close>);
  \<^item> a string is given by its UTF-8 bytes, which is what reaches the standard output;
  \<^item> an object is the list of its own properties in enumeration order, keys distinct.
\<close>

datatype jsval =
    JUndefined
  | JNull
  | JBool bool
  | JNum rat
  | JStr string
  | JArr "jsval list"
  | JObj "(string \<times> jsval) list"

text \<open>
  What a script can catch: a \<open>TypeError\<close> raised by the language itself (a property read
  on \<open>undefined\<close> or \<open>null\<close>, a call of something that is not a function, iteration over
  something that is not iterable), or a value thrown by what the script calls: the agent
  runtime, a child process.
\<close>

datatype js_error = TypeError | Thrown jsval

text \<open>
  Two operations of the language depend on the double-precision grid, which the rational
  model does not carry, and are parameters of the model: \<open>Number::toString\<close> outside the
  safe integers (shortest round-trip digits), and whether \<open>StringToNumber\<close> of a string
  is greater than zero. So is the message of a \<open>TypeError\<close>. Every theorem below holds
  for every choice of them.
\<close>

record engine =
  NumberToString :: "rat \<Rightarrow> string"
  StringGtZero :: "string \<Rightarrow> bool"
  TypeErrorMessage :: string

subsection \<open>Numbers to text\<close>

definition digit_char :: "nat \<Rightarrow> char" where
  "digit_char d = ''0123456789abcdef'' ! d"

fun show_nat :: "nat \<Rightarrow> string" where
  "show_nat n = (if n < 10 then [digit_char n] else show_nat (n div 10) @ [digit_char (n mod 10)])"

declare show_nat.simps [simp del]

definition show_int :: "int \<Rightarrow> string" where
  "show_int i = (if i < 0 then CHR ''-'' # show_nat (nat (- i)) else show_nat (nat i))"

definition is_safe_integer :: "rat \<Rightarrow> bool" where
  "is_safe_integer x \<longleftrightarrow> of_int \<lfloor>x\<rfloor> = x \<and> \<bar>x\<bar> \<le> 9007199254740992"

text \<open>\<open>Number::toString(x, 10)\<close>: the decimal digits for a safe integer.\<close>

definition number_to_string :: "engine \<Rightarrow> rat \<Rightarrow> string" where
  "number_to_string E x = (if is_safe_integer x then show_int \<lfloor>x\<rfloor> else NumberToString E x)"

text \<open>
  \<open>Number.prototype.toFixed(4)\<close> on a number: the sign, then the integer \<open>n\<close> nearest to
  \<open>x * 10^4\<close> (the larger of two), padded to five digits, with the point before the
  last four.
\<close>

definition toFixed4 :: "engine \<Rightarrow> rat \<Rightarrow> string" where
  "toFixed4 E x =
     (let s = (if x < 0 then ''-'' else '''');
          a = \<bar>x\<bar>
      in if 10 ^ 21 \<le> a then s @ number_to_string E a
         else
           let m = show_nat (nat \<lfloor>a * 10 ^ 4 + 1 / 2\<rfloor>);
               m' = (if length m \<le> 4 then replicate (5 - length m) (CHR ''0'') @ m else m);
               k = length m'
           in s @ take (k - 4) m' @ ''.'' @ drop (k - 4) m')"

subsection \<open>Strings\<close>

text \<open>
  \<open>s.length\<close> counts UTF-16 code units: one for each code point, two for a code point
  beyond the basic plane (a four-byte sequence in UTF-8). Iterating a string yields its
  code points.
\<close>

definition is_continuation :: "char \<Rightarrow> bool" where
  "is_continuation c \<longleftrightarrow> 128 \<le> (of_char c :: nat) \<and> (of_char c :: nat) < 192"

definition utf16_length :: "string \<Rightarrow> nat" where
  "utf16_length s =
     length (filter (\<lambda>c. \<not> is_continuation c) s) + length (filter (\<lambda>c. 240 \<le> (of_char c :: nat)) s)"

fun code_points :: "string \<Rightarrow> string list" where
  "code_points [] = []"
| "code_points (c # cs) =
     (case cs of
        [] \<Rightarrow> [[c]]
      | d # ds \<Rightarrow>
          if is_continuation d
          then (case code_points cs of [] \<Rightarrow> [[c]] | w # ws \<Rightarrow> (c # w) # ws)
          else [c] # code_points cs)"

text \<open>\<open>s.split(c)\<close> for a one-character separator: never empty.\<close>

fun split_on :: "char \<Rightarrow> string \<Rightarrow> string list" where
  "split_on c [] = [[]]"
| "split_on c (x # xs) =
     (if x = c then [] # split_on c xs
      else (case split_on c xs of [] \<Rightarrow> [[x]] | w # ws \<Rightarrow> (x # w) # ws))"

subsection \<open>Coercions and property reads\<close>

text \<open>\<open>ToBoolean\<close>.\<close>

fun truthy :: "jsval \<Rightarrow> bool" where
  "truthy JUndefined = False"
| "truthy JNull = False"
| "truthy (JBool b) = b"
| "truthy (JNum x) = (x \<noteq> 0)"
| "truthy (JStr s) = (s \<noteq> [])"
| "truthy (JArr xs) = True"
| "truthy (JObj kvs) = True"

definition join_with :: "string \<Rightarrow> string list \<Rightarrow> string" where
  "join_with sep ss = (case ss of [] \<Rightarrow> [] | s # rest \<Rightarrow> s @ concat (map (\<lambda>t. sep @ t) rest))"

text \<open>The results of evaluations made in order, up to the first that throws.\<close>

fun first_error :: "(js_error + 'a) list \<Rightarrow> js_error + 'a list" where
  "first_error [] = Inr []"
| "first_error (Inl e # rs) = Inl e"
| "first_error (Inr x # rs) = (case first_error rs of Inl e \<Rightarrow> Inl e | Inr xs \<Rightarrow> Inr (x # xs))"

text \<open>
  \<open>ToString\<close>, as a template literal applies it. An array prints as its elements joined
  by commas, \<open>undefined\<close> and \<open>null\<close> elements as nothing. A plain object prints as
  \<^verbatim>\<open>[object Object]\<close>, unless it has a property \<open>toString\<close> of its own: that one is
  not a function, the inherited \<open>valueOf\<close> gives no primitive, and the conversion is a
  \<open>TypeError\<close>.
\<close>

fun to_string :: "engine \<Rightarrow> jsval \<Rightarrow> js_error + string" where
  "to_string E JUndefined = Inr ''undefined''"
| "to_string E JNull = Inr ''null''"
| "to_string E (JBool b) = Inr (if b then ''true'' else ''false'')"
| "to_string E (JNum x) = Inr (number_to_string E x)"
| "to_string E (JStr s) = Inr s"
| "to_string E (JArr xs) =
     (case first_error (map (\<lambda>x. if x = JUndefined \<or> x = JNull then Inr [] else to_string E x) xs) of
        Inl e \<Rightarrow> Inl e
      | Inr ss \<Rightarrow> Inr (join_with '','' ss))"
| "to_string E (JObj kvs) =
     (if map_of kvs ''toString'' = None then Inr ''[object Object]'' else Inl TypeError)"

text \<open>\<open>Array.prototype.join(sep)\<close> on the elements of an array.\<close>

definition array_join :: "engine \<Rightarrow> string \<Rightarrow> jsval list \<Rightarrow> js_error + string" where
  "array_join E sep xs =
     (case first_error (map (\<lambda>x. if x = JUndefined \<or> x = JNull then Inr [] else to_string E x) xs) of
        Inl e \<Rightarrow> Inl e
      | Inr ss \<Rightarrow> Inr (join_with sep ss))"

text \<open>
  A template literal: its texts and its substitutions, in order. The substituted values
  are converted from left to right.
\<close>

datatype template_part = Lit string | Sub jsval

fun template :: "engine \<Rightarrow> template_part list \<Rightarrow> js_error + string" where
  "template E [] = Inr []"
| "template E (Lit s # rest) =
     (case template E rest of Inl e \<Rightarrow> Inl e | Inr t \<Rightarrow> Inr (s @ t))"
| "template E (Sub v # rest) =
     (case to_string E v of
        Inl e \<Rightarrow> Inl e
      | Inr s \<Rightarrow> (case template E rest of Inl e \<Rightarrow> Inl e | Inr t \<Rightarrow> Inr (s @ t)))"

text \<open>
  A property read \<open>v.p\<close>, for the property names the script reads (none of them is
  inherited from a prototype, except \<open>length\<close> of arrays and strings).
\<close>

fun get_prop :: "jsval \<Rightarrow> string \<Rightarrow> js_error + jsval" where
  "get_prop JUndefined p = Inl TypeError"
| "get_prop JNull p = Inl TypeError"
| "get_prop (JObj kvs) p = Inr (case map_of kvs p of None \<Rightarrow> JUndefined | Some v \<Rightarrow> v)"
| "get_prop (JArr xs) p = Inr (if p = ''length'' then JNum (of_nat (length xs)) else JUndefined)"
| "get_prop (JStr s) p = Inr (if p = ''length'' then JNum (of_nat (utf16_length s)) else JUndefined)"
| "get_prop (JBool b) p = Inr JUndefined"
| "get_prop (JNum x) p = Inr JUndefined"

text \<open>
  The comparison \<open>v > 0\<close>: \<open>ToPrimitive\<close>, then \<open>ToNumber\<close>. An array and an object go
  through their conversion to a string.
\<close>

fun gt_zero :: "engine \<Rightarrow> jsval \<Rightarrow> js_error + bool" where
  "gt_zero E JUndefined = Inr False"
| "gt_zero E JNull = Inr False"
| "gt_zero E (JBool b) = Inr b"
| "gt_zero E (JNum x) = Inr (0 < x)"
| "gt_zero E (JStr s) = Inr (StringGtZero E s)"
| "gt_zero E (JArr xs) =
     (case to_string E (JArr xs) of Inl e \<Rightarrow> Inl e | Inr s \<Rightarrow> Inr (StringGtZero E s))"
| "gt_zero E (JObj kvs) =
     (if map_of kvs ''toString'' = None then Inr False else Inl TypeError)"

text \<open>
  A property read \<open>error.p\<close> on what was caught, for \<open>message\<close>, \<open>stdout\<close> and
  \<open>stderr\<close>.
\<close>

fun error_prop :: "engine \<Rightarrow> js_error \<Rightarrow> string \<Rightarrow> js_error + jsval" where
  "error_prop E (Thrown v) p = get_prop v p"
| "error_prop E TypeError p =
     Inr (if p = ''message'' then JStr (TypeErrorMessage E) else JUndefined)"

text \<open>What \<open>for (const x of v)\<close> iterates over.\<close>

fun iterate :: "jsval \<Rightarrow> js_error + jsval list" where
  "iterate (JArr xs) = Inr xs"
| "iterate (JStr s) = Inr (map JStr (code_points s))"
| "iterate v = Inl TypeError"

subsection \<open>\<open>JSON.stringify(v, null, 2)\<close>\<close>

definition quote_json_char :: "char \<Rightarrow> string" where
  "quote_json_char c =
     (let n = (of_char c :: nat)
      in if n = 8 then [CHR 0x5C, CHR ''b'']
         else if n = 9 then [CHR 0x5C, CHR ''t'']
         else if n = 10 then [CHR 0x5C, CHR ''n'']
         else if n = 12 then [CHR 0x5C, CHR ''f'']
         else if n = 13 then [CHR 0x5C, CHR ''r'']
         else if n = 34 then [CHR 0x5C, CHR 0x22]
         else if n = 92 then [CHR 0x5C, CHR 0x5C]
         else if n < 32 then
           [CHR 0x5C, CHR ''u'', CHR ''0'', CHR ''0'', digit_char (n div 16), digit_char (n mod 16)]
         else [c])"

definition quote_json_string :: "string \<Rightarrow> string" where
  "quote_json_string s = CHR 0x22 # concat (map quote_json_char s) @ [CHR 0x22]"

definition line_break :: "nat \<Rightarrow> string" where
  "line_break indent = CHR 0x0A # replicate indent (CHR '' '')"

text \<open>
  \<open>None\<close> is the result \<open>undefined\<close>. Inside an array \<open>undefined\<close> prints as \<open>null\<close>;
  inside an object the property is left out. \<open>indent\<close> is the indentation of the
  enclosing level, in spaces.
\<close>

fun JSON_stringify :: "engine \<Rightarrow> nat \<Rightarrow> jsval \<Rightarrow> string option" where
  "JSON_stringify E indent JUndefined = None"
| "JSON_stringify E indent JNull = Some ''null''"
| "JSON_stringify E indent (JBool b) = Some (if b then ''true'' else ''false'')"
| "JSON_stringify E indent (JNum x) = Some (number_to_string E x)"
| "JSON_stringify E indent (JStr s) = Some (quote_json_string s)"
| "JSON_stringify E indent (JArr xs) =
     (let partial = map (\<lambda>x. case JSON_stringify E (indent + 2) x of
                                  None \<Rightarrow> ''null'' | Some t \<Rightarrow> t) xs
      in Some (if partial = [] then ''[]''
               else ''['' @ line_break (indent + 2)
                    @ join_with (CHR '','' # line_break (indent + 2)) partial
                    @ line_break indent @ '']''))"
| "JSON_stringify E indent (JObj kvs) =
     (let partial = concat (map (\<lambda>kv. case JSON_stringify E (indent + 2) (snd kv) of
                                          None \<Rightarrow> []
                                        | Some t \<Rightarrow> [quote_json_string (fst kv) @ '': '' @ t]) kvs)
      in Some (if partial = [] then ''{}''
               else ''{'' @ line_break (indent + 2)
                    @ join_with (CHR '','' # line_break (indent + 2)) partial
                    @ line_break indent @ ''}''))"

subsection \<open>Method calls\<close>

text \<open>
  A method call on a value that has no such method is a \<open>TypeError\<close>: \<open>toFixed\<close> exists
  on numbers only, \<open>join\<close> and \<open>map\<close> on arrays only, \<open>split\<close> on strings only.
\<close>

definition call_toFixed4 :: "engine \<Rightarrow> jsval \<Rightarrow> js_error + string" where
  "call_toFixed4 E v = (case v of JNum x \<Rightarrow> Inr (toFixed4 E x) | _ \<Rightarrow> Inl TypeError)"

definition call_join :: "engine \<Rightarrow> jsval \<Rightarrow> string \<Rightarrow> js_error + string" where
  "call_join E v sep = (case v of JArr xs \<Rightarrow> array_join E sep xs | _ \<Rightarrow> Inl TypeError)"

definition call_map :: "jsval \<Rightarrow> (jsval \<Rightarrow> js_error + jsval) \<Rightarrow> js_error + jsval" where
  "call_map v f =
     (case v of
        JArr xs \<Rightarrow> (case first_error (map f xs) of Inl e \<Rightarrow> Inl e | Inr ys \<Rightarrow> Inr (JArr ys))
      | _ \<Rightarrow> Inl TypeError)"

definition call_split :: "jsval \<Rightarrow> char \<Rightarrow> js_error + jsval list" where
  "call_split v c = (case v of JStr s \<Rightarrow> Inr (map JStr (split_on c s)) | _ \<Rightarrow> Inl TypeError)"

text \<open>Array destructuring \<open>[a, b] = xs\<close>: a missing element is \<open>undefined\<close>.\<close>

definition element :: "jsval list \<Rightarrow> nat \<Rightarrow> jsval" where
  "element xs i = (if i < length xs then xs ! i else JUndefined)"

section \<open>The process: effects, exceptions and exit\<close>

text \<open>The options of the one call \<open>query({prompt, options})\<close> of the agent SDK.\<close>

record query_options =
  prompt :: string
  systemPrompt :: string
  cwd :: string
  env :: "string \<rightharpoonup> string"
  permissionMode :: string
  maxTurns :: nat
  model :: string

text \<open>
  The agent runtime is outside the repository. A call of \<open>query\<close> either fails, or gives
  a stream that delivers finitely many messages and then closes or breaks.
\<close>

datatype stream_end = Closed | Broken js_error

datatype query_result = StartFails js_error | Stream "jsval list" stream_end

text \<open>
  The options of a call \<open>execSync(command, options)\<close>, and what the call does: the child
  process ends well and the call returns, or the call throws.
\<close>

record exec_options =
  encoding :: string
  stdio :: string
  exec_env :: "(string \<rightharpoonup> string) option"
  exec_cwd :: "string option"

datatype exec_result = Returned jsval | Failed jsval

text \<open>
  What a run does to the outside, in order. The console prints a string as it is; what
  it prints for another value or for an error is left to the console.
\<close>

datatype effect =
    ConsoleLog string
  | ConsoleLogValue jsval
  | ConsoleError string
  | ConsoleErrorValue jsval
  | ConsoleErrorLabelled string jsval
  | ConsoleErrorWith string js_error
  | SetEnv string string
  | Query query_options
  | ExecSync string exec_options

text \<open>
  A computation leaves a trace of effects and then returns a value, throws, or ends the
  process with \<open>process.exit(n)\<close>. Only a thrown error can be caught.
\<close>

datatype interrupt = Throw js_error | Exit nat

type_synonym 'a prog = "effect list \<times> (interrupt + 'a)"

definition done_with :: "'a \<Rightarrow> 'a prog" where
  "done_with x = ([], Inr x)"

definition perform :: "effect \<Rightarrow> unit prog" where
  "perform e = ([e], Inr ())"

definition attempt :: "js_error + 'a \<Rightarrow> 'a prog" where
  "attempt r = (case r of Inl e \<Rightarrow> ([], Inl (Throw e)) | Inr x \<Rightarrow> ([], Inr x))"

definition process_exit :: "nat \<Rightarrow> 'a prog" where
  "process_exit n = ([], Inl (Exit n))"

definition and_then :: "'a prog \<Rightarrow> ('a \<Rightarrow> 'b prog) \<Rightarrow> 'b prog" where
  "and_then m f =
     (case m of
        (out, Inl i) \<Rightarrow> (out, Inl i)
      | (out, Inr x) \<Rightarrow> (case f x of (out', r) \<Rightarrow> (out @ out', r)))"

definition try_catch :: "'a prog \<Rightarrow> (js_error \<Rightarrow> 'a prog) \<Rightarrow> 'a prog" where
  "try_catch m handler =
     (case m of
        (out, Inl (Throw e)) \<Rightarrow> (case handler e of (out', r) \<Rightarrow> (out @ out', r))
      | _ \<Rightarrow> m)"

fun for_each :: "'a list \<Rightarrow> ('a \<Rightarrow> unit prog) \<Rightarrow> unit prog" where
  "for_each [] body = done_with ()"
| "for_each (x # xs) body = and_then (body x) (\<lambda>_. for_each xs body)"

definition console_log :: "string \<Rightarrow> unit prog" where
  "console_log s = perform (ConsoleLog s)"

definition console_error :: "string \<Rightarrow> unit prog" where
  "console_error s = perform (ConsoleError s)"

text \<open>\<open>console.log(v)\<close> and \<open>console.error(v)\<close> of a value.\<close>

definition console_log_value :: "jsval \<Rightarrow> unit prog" where
  "console_log_value v = (case v of JStr s \<Rightarrow> console_log s | _ \<Rightarrow> perform (ConsoleLogValue v))"

definition console_error_value :: "jsval \<Rightarrow> unit prog" where
  "console_error_value v = (case v of JStr s \<Rightarrow> console_error s | _ \<Rightarrow> perform (ConsoleErrorValue v))"

text \<open>\<open>console.log\<close> of a template literal.\<close>

definition log_template :: "engine \<Rightarrow> template_part list \<Rightarrow> unit prog" where
  "log_template E parts = and_then (attempt (template E parts)) console_log"

text \<open>The comparison \<open>v.p === "lit"\<close>.\<close>

definition prop_is :: "jsval \<Rightarrow> string \<Rightarrow> string \<Rightarrow> bool prog" where
  "prop_is v p lit = and_then (attempt (get_prop v p)) (\<lambda>x. done_with (x = JStr lit))"

text \<open>
  The exit code of the process: the argument of \<open>process.exit\<close>, else 0 when the script
  runs to its end, and 1 for an exception that nothing catches.
\<close>

definition exit_code :: "'a prog \<Rightarrow> nat" where
  "exit_code m = (case snd m of Inr _ \<Rightarrow> 0 | Inl (Exit n) \<Rightarrow> n | Inl (Throw _) \<Rightarrow> 1)"

text \<open>The strings that a run logged, in order.\<close>

definition stdout :: "'a prog \<Rightarrow> string list" where
  "stdout m = concat (map (\<lambda>e. case e of ConsoleLog s \<Rightarrow> [s] | _ \<Rightarrow> []) (fst m))"

section \<open>\<^verbatim>\<open>scripts/pr-review-agent.mjs\<close>\<close>

subsection \<open>The body of the streaming loop\<close>

text \<open>
  The three branches of the loop body of \<open>runAgent\<close>, named by the message kind they
  handle, and the dispatch on \<open>message.type\<close>. Some text of the script is beyond ASCII;
  it is written as its UTF-8 bytes.
\<close>

definition warning_sign :: string where
  "warning_sign = [CHR 0xE2, CHR 0x9A, CHR 0xA0, CHR 0xEF, CHR 0xB8, CHR 0x8F]"

definition cross_mark :: string where
  "cross_mark = [CHR 0xE2, CHR 0x9D, CHR 0x8C]"

definition check_mark :: string where
  "check_mark = [CHR 0xE2, CHR 0x9C, CHR 0x93]"

definition log_content :: "engine \<Rightarrow> jsval \<Rightarrow> unit prog" where
  "log_content E content =
     and_then (prop_is content ''type'' ''text'') (\<lambda>is_text.
     if is_text then
       and_then (attempt (get_prop content ''text'')) (\<lambda>text.
       log_template E [Lit ''\<newline>[Assistant] '', Sub text, Lit ''\<newline>''])
     else
       and_then (prop_is content ''type'' ''tool_use'') (\<lambda>is_tool_use.
       if is_tool_use then
         and_then (attempt (get_prop content ''name'')) (\<lambda>name.
         and_then (log_template E [Lit ''\<newline>[Tool Use] '', Sub name]) (\<lambda>_.
         and_then (attempt (get_prop content ''input'')) (\<lambda>input.
         console_log (case JSON_stringify E 0 input of None \<Rightarrow> ''undefined'' | Some t \<Rightarrow> t))))
       else done_with ()))"

definition on_assistant :: "engine \<Rightarrow> jsval \<Rightarrow> unit prog" where
  "on_assistant E message =
     and_then (attempt (get_prop message ''message'')) (\<lambda>inner.
     and_then (attempt (get_prop inner ''content'')) (\<lambda>contents.
     and_then (attempt (iterate contents)) (\<lambda>items.
     for_each items (log_content E))))"

definition on_result :: "engine \<Rightarrow> jsval \<Rightarrow> unit prog" where
  "on_result E message =
     and_then (console_log ''\<newline>=== Review Completed ==='') (\<lambda>_.
     and_then (attempt (get_prop message ''duration_ms'')) (\<lambda>duration_ms.
     and_then (log_template E [Lit ''Duration: '', Sub duration_ms, Lit ''ms'']) (\<lambda>_.
     and_then (attempt (get_prop message ''num_turns'')) (\<lambda>num_turns.
     and_then (log_template E [Lit ''Turns: '', Sub num_turns]) (\<lambda>_.
     and_then (attempt (get_prop message ''total_cost_usd'')) (\<lambda>total_cost_usd.
     and_then (attempt (call_toFixed4 E total_cost_usd)) (\<lambda>cost.
     and_then (log_template E [Lit ''Cost: $'', Sub (JStr cost)]) (\<lambda>_.
     and_then (attempt (get_prop message ''subtype'')) (\<lambda>subtype.
     and_then (log_template E [Lit ''Status: '', Sub subtype]) (\<lambda>_.
     and_then
       (and_then (prop_is message ''subtype'' ''success'') (\<lambda>is_success.
        if is_success then
          and_then (attempt (get_prop message ''result'')) (\<lambda>result.
          log_template E [Lit ''\<newline>Result: '', Sub result])
        else
          and_then (prop_is message ''subtype'' ''error_max_turns'') (\<lambda>is_max_turns.
          if is_max_turns then
            console_log (''\<newline>'' @ warning_sign @ '' Review reached maximum turns limit'')
          else
            and_then (prop_is message ''subtype'' ''error_during_execution'') (\<lambda>is_exec_error.
            if is_exec_error then
              console_log (''\<newline>'' @ cross_mark @ '' Error occurred during review execution'')
            else done_with ())))) (\<lambda>_.
     and_then (attempt (get_prop message ''permission_denials'')) (\<lambda>permission_denials.
     if \<not> truthy permission_denials then done_with ()
     else
       and_then (attempt (get_prop permission_denials ''length'')) (\<lambda>n.
       and_then (attempt (gt_zero E n)) (\<lambda>positive.
       if positive then
         log_template E [Lit (''\<newline>'' @ warning_sign @ '' Permission denials: ''), Sub n]
       else done_with ()))))))))))))))"

definition on_system_init :: "engine \<Rightarrow> jsval \<Rightarrow> unit prog" where
  "on_system_init E message =
     and_then (console_log ''[System] Initialized'') (\<lambda>_.
     and_then (attempt (get_prop message ''model'')) (\<lambda>model_name.
     and_then (log_template E [Lit ''  Model: '', Sub model_name]) (\<lambda>_.
     and_then (attempt (get_prop message ''cwd'')) (\<lambda>dir.
     and_then (log_template E [Lit ''  Working Directory: '', Sub dir]) (\<lambda>_.
     and_then (attempt (get_prop message ''tools'')) (\<lambda>tools.
     and_then (attempt (call_join E tools '', '')) (\<lambda>tool_names.
     and_then (log_template E [Lit ''  Tools: '', Sub (JStr tool_names)]) (\<lambda>_.
     and_then (attempt (get_prop message ''mcp_servers'')) (\<lambda>mcp_servers.
     and_then (attempt (call_map mcp_servers (\<lambda>s. get_prop s ''name''))) (\<lambda>names.
     and_then (attempt (call_join E names '', '')) (\<lambda>server_names.
     log_template E
       [Lit ''  MCP Servers: '',
        Sub (if truthy (JStr server_names) then JStr server_names else JStr ''none'')])))))))))))"

definition on_message :: "engine \<Rightarrow> jsval \<Rightarrow> unit prog" where
  "on_message E message =
     and_then (prop_is message ''type'' ''assistant'') (\<lambda>is_assistant.
     if is_assistant then on_assistant E message
     else
       and_then (prop_is message ''type'' ''result'') (\<lambda>is_result.
       if is_result then on_result E message
       else
         and_then (prop_is message ''type'' ''system'') (\<lambda>is_system.
         if \<not> is_system then done_with ()
         else
           and_then (prop_is message ''subtype'' ''init'') (\<lambda>is_init.
           if is_init then on_system_init E message else done_with ()))))"

subsection \<open>\<open>runAgent\<close>\<close>

text \<open>
  \<open>for await (const message of result)\<close>: the loop body on each delivered message in
  order; a stream that breaks throws where the next message was awaited.
\<close>

definition for_await :: "jsval list \<Rightarrow> stream_end \<Rightarrow> (jsval \<Rightarrow> unit prog) \<Rightarrow> unit prog" where
  "for_await messages ending body =
     and_then (for_each messages body) (\<lambda>_.
     case ending of Closed \<Rightarrow> done_with () | Broken e \<Rightarrow> attempt (Inl e))"

text \<open>
  The globals that \<open>runAgent\<close> reads are its arguments here: \<open>process_cwd\<close> is the
  value of \<open>process.cwd()\<close> and \<open>process_env\<close> the environment \<open>process.env\<close> at the
  time of the call. \<open>runtime\<close> is what the call of \<open>query\<close> does; \<open>review_prompt\<close> is
  the prompt and \<open>review_query\<close> the options that it is called with.
\<close>

definition review_prompt :: "engine \<Rightarrow> jsval \<Rightarrow> jsval \<Rightarrow> jsval \<Rightarrow> js_error + string" where
  "review_prompt E PR_NUMBER GITHUB_REPOSITORY HEAD_SHA = template E
     [Lit ''Review pull request #'', Sub PR_NUMBER, Lit '' for repository '',
      Sub GITHUB_REPOSITORY, Lit ''. The PR is at commit '', Sub HEAD_SHA,
      Lit ''. Start by examining what changed using the gh CLI commands available to you.'']"

definition review_query ::
  "string \<Rightarrow> string \<Rightarrow> string \<Rightarrow> (string \<rightharpoonup> string) \<Rightarrow> query_options" where
  "review_query prompt_text system_prompt process_cwd process_env =
     \<lparr>prompt = prompt_text,
      systemPrompt = system_prompt,
      cwd = process_cwd,
      env = process_env,
      permissionMode = ''bypassPermissions'',
      maxTurns = 25,
      model = ''claude-3-5-sonnet-latest''\<rparr>"

definition runAgent ::
  "engine \<Rightarrow> query_result \<Rightarrow> string \<Rightarrow> (string \<rightharpoonup> string) \<Rightarrow>
     jsval \<Rightarrow> jsval \<Rightarrow> jsval \<Rightarrow> string \<Rightarrow> unit prog" where
  "runAgent E runtime process_cwd process_env PR_NUMBER GITHUB_REPOSITORY HEAD_SHA system_prompt =
     try_catch
       (and_then
          (attempt (review_prompt E PR_NUMBER GITHUB_REPOSITORY HEAD_SHA)) (\<lambda>prompt_text.
        and_then
          (perform (Query (review_query prompt_text system_prompt process_cwd process_env))) (\<lambda>_.
        case runtime of
          StartFails e \<Rightarrow> attempt (Inl e)
        | Stream messages ending \<Rightarrow>
            and_then (console_log ''\<newline>=== Starting PR Review ===\<newline>'') (\<lambda>_.
            and_then (for_await messages ending (on_message E)) (\<lambda>_.
            console_log (''\<newline>'' @ check_mark @ '' PR Review Agent completed successfully''))))))
       (\<lambda>error.
          and_then (perform (ConsoleErrorWith ''Fatal error:'' error)) (\<lambda>_.
          process_exit 1))"

subsection \<open>The script\<close>

text \<open>A variable of the environment: \<open>undefined\<close> when it is not set.\<close>

definition env_var :: "(string \<rightharpoonup> string) \<Rightarrow> string \<Rightarrow> jsval" where
  "env_var process_env name = (case process_env name of None \<Rightarrow> JUndefined | Some s \<Rightarrow> JStr s)"

definition SYSTEM_PROMPT :: "engine \<Rightarrow> jsval \<Rightarrow> jsval \<Rightarrow> jsval \<Rightarrow> jsval \<Rightarrow> js_error + string" where
  \<open>SYSTEM_PROMPT E owner repo PR_NUMBER HEAD_SHA = template E
    [Lit ''You are an expert code reviewer for the Cline project - an AI-powered coding assistant built as a VSCode extension.\<newline>'',
     Lit ''\<newline>'',
     Lit ''Your role is to autonomously review pull requests by:\<newline>'',
     Lit ''1. Understanding what changed and why\<newline>'',
     Lit ''2. Identifying bugs, security issues, and code quality problems\<newline>'',
     Lit ''3. Checking architectural decisions and design patterns\<newline>'',
     Lit ''4. Ensuring code follows best practices\<newline>'',
     Lit ''5. Navigating the codebase to understand context when needed\<newline>'',
     Lit ''\<newline>'',
     Lit ''Technical context about Cline:\<newline>'',
     Lit ''- TypeScript/JavaScript codebase with VSCode extension\<newline>'',
     Lit ''- Uses gRPC and Protocol Buffers for communication\<newline>'',
     Lit ''- Has a React webview UI\<newline>'',
     Lit ''- Integrates with various AI providers (Anthropic, OpenAI, etc.)\<newline>'',
     Lit ''- Uses Model Context Protocol (MCP) for extensibility\<newline>'',
     Lit ''\<newline>'',
     Lit ''Available tools you can use:\<newline>'',
     Lit ''- Bash: Execute gh CLI commands to interact with GitHub\<newline>'',
     Lit ''- Read: Read files from the repository\<newline>'',
     Lit ''- Grep: Search through code\<newline>'',
     Lit ''- Glob: Find files matching patterns\<newline>'',
     Lit ''- Write: Create temporary files if needed\<newline>'',
     Lit ''\<newline>'',
     Lit ''GitHub CLI commands you'll need:\<newline>'',
     Lit ''- Get PR diff: gh api repos/'', Sub owner, Lit ''/'', Sub repo, Lit ''/pulls/'',
     Sub PR_NUMBER, Lit ''/files\<newline>'',
     Lit ''- Get changed files: gh api repos/'', Sub owner, Lit ''/'', Sub repo, Lit ''/pulls/'',
     Sub PR_NUMBER, Lit ''/files\<newline>'',
     Lit ''- Post inline comment: gh api repos/'', Sub owner, Lit ''/'', Sub repo, Lit ''/pulls/'',
     Sub PR_NUMBER, Lit ''/reviews --method POST --input <file>\<newline>'',
     Lit ''- Post review summary: gh pr review '', Sub PR_NUMBER, Lit '' --repo '', Sub owner,
     Lit ''/'', Sub repo, Lit '' [--approve|--request-changes|--comment] --body "..."\<newline>'',
     Lit ''\<newline>'',
     Lit ''Review approach:\<newline>'',
     Lit ''1. Start by using Bash to run: gh api repos/'', Sub owner, Lit ''/'', Sub repo,
     Lit ''/pulls/'', Sub PR_NUMBER, Lit ''/files\<newline>'',
     Lit ''   This will show you all changed files and their diffs\<newline>'',
     Lit ''2. For each changed file, understand what it does by reading the full file if needed (use Read tool)\<newline>'',
     Lit ''3. Navigate to related files to understand the broader context\<newline>'',
     Lit ''4. Use your AI intelligence to identify:\<newline>'',
     Lit ''   - Logic errors and bugs\<newline>'',
     Lit ''   - Security vulnerabilities (SQL injection, XSS, credential leaks, etc.)\<newline>'',
     Lit ''   - Race conditions and concurrency issues\<newline>'',
     Lit ''   - Memory leaks and resource management issues\<newline>'',
     Lit ''   - Breaking API changes\<newline>'',
     Lit ''   - Missing error handling\<newline>'',
     Lit ''   - Poor code organization or unclear logic\<newline>'',
     Lit ''   - Performance issues\<newline>'',
     Lit ''   - Accessibility problems (for UI code)\<newline>'',
     Lit ''5. Post specific inline comments on lines that need attention using gh CLI\<newline>'',
     Lit ''   For inline comments, create a JSON file with this structure:\<newline>'',
     Lit ''   {\<newline>'',
     Lit ''     "commit_id": "'', Sub HEAD_SHA, Lit ''",\<newline>'',
     Lit ''     "event": "COMMENT",\<newline>'',
     Lit ''     "comments": [{"path": "...", "line": N, "side": "RIGHT", "body": "..."}]\<newline>'',
     Lit ''   }\<newline>'',
     Lit ''   Save to /tmp/review-<timestamp>.json and use:\<newline>'',
     Lit ''   gh api repos/'', Sub owner, Lit ''/'', Sub repo, Lit ''/pulls/'', Sub PR_NUMBER,
     Lit ''/reviews --method POST --input /tmp/review-<timestamp>.json\<newline>'',
     Lit ''6. Provide an overall review summary at the end using:\<newline>'',
     Lit ''   gh pr review '', Sub PR_NUMBER, Lit '' --repo '', Sub owner, Lit ''/'', Sub repo,
     Lit '' [--approve|--request-changes|--comment] --body "..."\<newline>'',
     Lit ''\<newline>'',
     Lit ''Guidelines:\<newline>'',
     Lit ''- Focus on meaningful issues that could cause real problems\<newline>'',
     Lit ''- Be constructive and specific in your feedback\<newline>'',
     Lit ''- Suggest concrete fixes when possible\<newline>'',
     Lit ''- Don't nitpick style unless it affects readability\<newline>'',
     Lit ''- If something is unclear, read more files to understand context\<newline>'',
     Lit ''- Consider the full impact of changes, not just local effects\<newline>'',
     Lit ''\<newline>'',
     Lit ''When you're done reviewing, use gh pr review to post your final summary with:\<newline>'',
     Lit ''- --approve: No significant issues found\<newline>'',
     Lit ''- --comment: Minor issues that should be addressed but don't block merge\<newline>'',
     Lit ''- --request-changes: Serious issues that must be fixed before merge\<newline>'',
     Lit ''\<newline>'',
     Lit ''Begin by examining what changed in this PR using the gh CLI.'']\<close>

definition main ::
  "engine \<Rightarrow> query_result \<Rightarrow> string \<Rightarrow> (string \<rightharpoonup> string) \<Rightarrow> unit prog" where
  "main E runtime process_cwd process_env =
     (let ANTHROPIC_API_KEY = env_var process_env ''ANTHROPIC_API_KEY'';
          GITHUB_TOKEN = env_var process_env ''GITHUB_TOKEN'';
          GITHUB_REPOSITORY = env_var process_env ''GITHUB_REPOSITORY'';
          PR_NUMBER = env_var process_env ''PR_NUMBER'';
          HEAD_SHA = env_var process_env ''HEAD_SHA''
      in
        if \<not> truthy ANTHROPIC_API_KEY then
          and_then (console_error ''Error: ANTHROPIC_API_KEY environment variable is required'') (\<lambda>_.
          process_exit 1)
        else if \<not> truthy GITHUB_TOKEN then
          and_then (console_error ''Error: GITHUB_TOKEN environment variable is required'') (\<lambda>_.
          process_exit 1)
        else if \<not> truthy GITHUB_REPOSITORY \<or> \<not> truthy PR_NUMBER \<or> \<not> truthy HEAD_SHA then
          and_then (console_error ''Error: GitHub environment variables missing'') (\<lambda>_.
          process_exit 1)
        else
          and_then (attempt (call_split GITHUB_REPOSITORY (CHR ''/''))) (\<lambda>parts.
          let owner = element parts 0;
              repo = element parts 1
          in
          and_then (attempt (to_string E GITHUB_TOKEN)) (\<lambda>token.
          and_then (perform (SetEnv ''GH_TOKEN'' token)) (\<lambda>_.
          and_then (log_template E [Lit ''Starting AI-powered review for '', Sub GITHUB_REPOSITORY,
                                    Lit ''#'', Sub PR_NUMBER]) (\<lambda>_.
          and_then (attempt (SYSTEM_PROMPT E owner repo PR_NUMBER HEAD_SHA)) (\<lambda>system_prompt.
          runAgent E runtime process_cwd (process_env(''GH_TOKEN'' \<mapsto> token))
            PR_NUMBER GITHUB_REPOSITORY HEAD_SHA system_prompt))))))"

section \<open>\<^verbatim>\<open>unnamed/part_000\<close>\<close>

text \<open>
  The second script of the repository runs the review through the \<open>cline\<close> command line
  instead of the agent SDK. It reads and checks the same five variables with the same
  text, then calls \<open>execSync\<close> twice, each call in a \<open>try\<close> of its own.
\<close>

text \<open>
  \<open>execSync(command, options)\<close>: the call is an effect; what the child process does is
  given to the model.
\<close>

definition execSync :: "string \<Rightarrow> exec_options \<Rightarrow> exec_result \<Rightarrow> jsval prog" where
  "execSync command options outcome =
     and_then (perform (ExecSync command options)) (\<lambda>_.
     case outcome of
       Returned output \<Rightarrow> done_with output
     | Failed e \<Rightarrow> attempt (Inl (Thrown e)))"

text \<open>\<open>s.replace(/"/g, '\\"')\<close>: a backslash before every double quote.\<close>

definition escape_quotes :: "string \<Rightarrow> string" where
  \<open>escape_quotes s = concat (map (\<lambda>c. if c = CHR 0x22 then [CHR 0x5C, CHR 0x22] else [c]) s)\<close>

definition REVIEW_PROMPT ::
  "engine \<Rightarrow> jsval \<Rightarrow> jsval \<Rightarrow> jsval \<Rightarrow> jsval \<Rightarrow> jsval \<Rightarrow> js_error + string" where
  \<open>REVIEW_PROMPT E owner repo GITHUB_REPOSITORY PR_NUMBER HEAD_SHA = template E
    [Lit ''You are an expert code reviewer for the Cline project - an AI-powered coding assistant built as a VSCode extension.\<newline>'',
     Lit ''\<newline>'',
     Lit ''Your task is to autonomously review pull request #'', Sub PR_NUMBER,
     Lit '' for repository '', Sub GITHUB_REPOSITORY, Lit '' at commit '', Sub HEAD_SHA,
     Lit ''.\<newline>'',
     Lit ''\<newline>'',
     Lit ''TECHNICAL CONTEXT:\<newline>'',
     Lit ''- TypeScript/JavaScript codebase with VSCode extension\<newline>'',
     Lit ''- Uses gRPC and Protocol Buffers for communication\<newline>'',
     Lit ''- Has a React webview UI\<newline>'',
     Lit ''- Integrates with various AI providers (Anthropic, OpenAI, etc.)\<newline>'',
     Lit ''- Uses Model Context Protocol (MCP) for extensibility\<newline>'',
     Lit ''\<newline>'',
     Lit ''AVAILABLE TOOLS:\<newline>'',
     Lit ''- Bash: Execute gh CLI commands to interact with GitHub\<newline>'',
     Lit ''- Read: Read files from the repository\<newline>'',
     Lit ''- Grep: Search through code\<newline>'',
     Lit ''- Glob: Find files matching patterns\<newline>'',
     Lit ''\<newline>'',
     Lit ''GITHUB CLI COMMANDS YOU'LL NEED:\<newline>'',
     Lit ''1. Get PR files and diffs:\<newline>'',
     Lit ''   gh api repos/'', Sub owner, Lit ''/'', Sub repo, Lit ''/pulls/'', Sub PR_NUMBER,
     Lit ''/files\<newline>'',
     Lit ''\<newline>'',
     Lit ''2. Post inline comment (create JSON file first):\<newline>'',
     Lit ''   {\<newline>'',
     Lit ''     "commit_id": "'', Sub HEAD_SHA, Lit ''",\<newline>'',
     Lit ''     "event": "COMMENT",\<newline>'',
     Lit ''     "comments": [{"path": "file.js", "line": 10, "side": "RIGHT", "body": "comment"}]\<newline>'',
     Lit ''   }\<newline>'',
     Lit ''   Save to /tmp/review-<timestamp>.json then:\<newline>'',
     Lit ''   gh api repos/'', Sub owner, Lit ''/'', Sub repo, Lit ''/pulls/'', Sub PR_NUMBER,
     Lit ''/reviews --method POST --input /tmp/review-<timestamp>.json\<newline>'',
     Lit ''\<newline>'',
     Lit ''3. Post final review summary:\<newline>'',
     Lit ''   gh pr review '', Sub PR_NUMBER, Lit '' --repo '', Sub owner, Lit ''/'', Sub repo,
     Lit '' [--approve|--request-changes|--comment] --body "summary"\<newline>'',
     Lit ''\<newline>'',
     Lit ''REVIEW APPROACH:\<newline>'',
     Lit ''1. Start by using Bash to run: gh api repos/'', Sub owner, Lit ''/'', Sub repo,
     Lit ''/pulls/'', Sub PR_NUMBER, Lit ''/files\<newline>'',
     Lit ''   This shows all changed files with their diffs\<newline>'',
     Lit ''2. For each changed file, use Read to understand the full context if needed\<newline>'',
     Lit ''3. Navigate to related files to understand broader context\<newline>'',
     Lit ''4. Identify issues:\<newline>'',
     Lit ''   - Logic errors and bugs\<newline>'',
     Lit ''   - Security vulnerabilities (SQL injection, XSS, credential leaks, etc.)\<newline>'',
     Lit ''   - Race conditions and concurrency issues\<newline>'',
     Lit ''   - Memory leaks and resource management issues\<newline>'',
     Lit ''   - Breaking API changes\<newline>'',
     Lit ''   - Missing error handling\<newline>'',
     Lit ''   - Poor code organization or unclear logic\<newline>'',
     Lit ''   - Performance issues\<newline>'',
     Lit ''   - Accessibility problems (for UI code)\<newline>'',
     Lit ''5. Post specific inline comments for issues found using gh CLI with JSON files\<newline>'',
     Lit ''6. Provide final review summary using gh pr review\<newline>'',
     Lit ''\<newline>'',
     Lit ''GUIDELINES:\<newline>'',
     Lit ''- Focus on meaningful issues that could cause real problems\<newline>'',
     Lit ''- Be constructive and specific in your feedback\<newline>'',
     Lit ''- Suggest concrete fixes when possible\<newline>'',
     Lit ''- Don't nitpick style unless it affects readability\<newline>'',
     Lit ''- Read more files if something is unclear\<newline>'',
     Lit ''- Consider the full impact of changes, not just local effects\<newline>'',
     Lit ''\<newline>'',
     Lit ''FINAL REVIEW:\<newline>'',
     Lit ''When done reviewing, use gh pr review to post your summary with:\<newline>'',
     Lit ''- --approve: No significant issues found\<newline>'',
     Lit ''- --comment: Minor issues that should be addressed but don't block merge\<newline>'',
     Lit ''- --request-changes: Serious issues that must be fixed before merge\<newline>'',
     Lit ''\<newline>'',
     Lit ''BEGIN: Start by examining what changed in this PR using gh CLI.'']\<close>


definition configure_cline :: "engine \<Rightarrow> exec_result \<Rightarrow> jsval \<Rightarrow> unit prog" where
  "configure_cline E configured ANTHROPIC_API_KEY =
     try_catch
       (and_then
          (attempt (template E [Lit ''cline config set api-key='', Sub ANTHROPIC_API_KEY])) (\<lambda>command.
        and_then
          (execSync command
             \<lparr>encoding = ''utf8'', stdio = ''inherit'', exec_env = None, exec_cwd = None\<rparr>
             configured) (\<lambda>_.
        console_log (check_mark @ '' API key configured''))))
       (\<lambda>error.
          and_then (attempt (error_prop E error ''message'')) (\<lambda>message.
          and_then (perform (ConsoleErrorLabelled ''Failed to configure API key:'' message)) (\<lambda>_.
          process_exit 1)))"

definition review_command :: "string \<Rightarrow> string" where
  \<open>review_command prompt_text =
     ''cline task new "'' @ escape_quotes prompt_text @
     ''" --yolo --mode act & sleep 2 && cline task view --follow-complete --output-format plain''\<close>

definition run_review ::
  "engine \<Rightarrow> exec_result \<Rightarrow> string \<Rightarrow> (string \<rightharpoonup> string) \<Rightarrow> string \<Rightarrow> unit prog" where
  "run_review E reviewed process_cwd process_env prompt_text =
     try_catch
       (and_then
          (execSync (review_command prompt_text)
             \<lparr>encoding = ''utf8'', stdio = ''pipe'', exec_env = Some process_env,
              exec_cwd = Some process_cwd\<rparr>
             reviewed) (\<lambda>output.
        and_then (console_log_value output) (\<lambda>_.
        console_log (''\<newline>'' @ check_mark @ '' PR Review completed successfully''))))
       (\<lambda>error.
          and_then (console_error (''\<newline>'' @ cross_mark @ '' PR Review failed'')) (\<lambda>_.
          and_then (attempt (error_prop E error ''stdout'')) (\<lambda>out.
          and_then
            (if truthy out
             then and_then (console_log ''\<newline>Output:'') (\<lambda>_. console_log_value out)
             else done_with ()) (\<lambda>_.
          and_then (attempt (error_prop E error ''stderr'')) (\<lambda>err.
          and_then
            (if truthy err
             then and_then (console_error ''\<newline>Errors:'') (\<lambda>_. console_error_value err)
             else done_with ()) (\<lambda>_.
          process_exit 1))))))"

definition main_cli ::
  "engine \<Rightarrow> exec_result \<Rightarrow> exec_result \<Rightarrow> string \<Rightarrow> (string \<rightharpoonup> string) \<Rightarrow> unit prog" where
  "main_cli E configured reviewed process_cwd process_env =
     (let ANTHROPIC_API_KEY = env_var process_env ''ANTHROPIC_API_KEY'';
          GITHUB_TOKEN = env_var process_env ''GITHUB_TOKEN'';
          GITHUB_REPOSITORY = env_var process_env ''GITHUB_REPOSITORY'';
          PR_NUMBER = env_var process_env ''PR_NUMBER'';
          HEAD_SHA = env_var process_env ''HEAD_SHA''
      in
        if \<not> truthy ANTHROPIC_API_KEY then
          and_then (console_error ''Error: ANTHROPIC_API_KEY environment variable is required'') (\<lambda>_.
          process_exit 1)
        else if \<not> truthy GITHUB_TOKEN then
          and_then (console_error ''Error: GITHUB_TOKEN environment variable is required'') (\<lambda>_.
          process_exit 1)
        else if \<not> truthy GITHUB_REPOSITORY \<or> \<not> truthy PR_NUMBER \<or> \<not> truthy HEAD_SHA then
          and_then (console_error ''Error: GitHub environment variables missing'') (\<lambda>_.
          process_exit 1)
        else
          and_then (attempt (call_split GITHUB_REPOSITORY (CHR ''/''))) (\<lambda>parts.
          let owner = element parts 0;
              repo = element parts 1
          in
          and_then (attempt (to_string E GITHUB_TOKEN)) (\<lambda>token.
          and_then (perform (SetEnv ''GH_TOKEN'' token)) (\<lambda>_.
          and_then (log_template E [Lit ''Starting AI-powered review for '', Sub GITHUB_REPOSITORY,
                                    Lit ''#'', Sub PR_NUMBER]) (\<lambda>_.
          and_then (console_log ''\<newline>=== Configuring Cline ==='') (\<lambda>_.
          and_then (configure_cline E configured ANTHROPIC_API_KEY) (\<lambda>_.
          and_then (attempt (REVIEW_PROMPT E owner repo GITHUB_REPOSITORY PR_NUMBER HEAD_SHA))
            (\<lambda>prompt_text.
          and_then (console_log ''\<newline>=== Starting PR Review ===\<newline>'') (\<lambda>_.
          run_review E reviewed process_cwd (process_env(''GH_TOKEN'' \<mapsto> token))
            prompt_text)))))))))"

section \<open>Well-formed session events\<close>

text \<open>
  The specification's data model of the events, and the messages of the agent SDK that
  carry them (\<open>encode\<close>), with the field names that the script reads. A message need not
  be of this shape; the script does not check.
\<close>

datatype segment = Text string | ToolInvocation string jsval

datatype result_subtype = success | errorMaxTurns | errorDuringExecution | other string

datatype session_event =
    Assistant "segment list"
  | SystemInit string string "string list" "string list"
  | Result result_subtype rat rat rat "string option" nat

fun encode_segment :: "segment \<Rightarrow> jsval" where
  "encode_segment (Text body) = JObj [(''type'', JStr ''text''), (''text'', JStr body)]"
| "encode_segment (ToolInvocation name input) =
     JObj [(''type'', JStr ''tool_use''), (''name'', JStr name), (''input'', input)]"

fun subtype_name :: "result_subtype \<Rightarrow> string" where
  "subtype_name success = ''success''"
| "subtype_name errorMaxTurns = ''error_max_turns''"
| "subtype_name errorDuringExecution = ''error_during_execution''"
| "subtype_name (other s) = s"

text \<open>
  \<open>SystemInit model workingDirectory toolNames mcpServerNames\<close> and
  \<open>Result subtype durationMs turnCount costUsd resultText permissionDenialCount\<close>.
\<close>

fun encode :: "session_event \<Rightarrow> jsval" where
  "encode (Assistant segments) =
     JObj [(''type'', JStr ''assistant''),
           (''message'', JObj [(''content'', JArr (map encode_segment segments))])]"
| "encode (SystemInit model_name dir tool_names server_names) =
     JObj [(''type'', JStr ''system''), (''subtype'', JStr ''init''),
           (''model'', JStr model_name), (''cwd'', JStr dir),
           (''tools'', JArr (map JStr tool_names)),
           (''mcp_servers'', JArr (map (\<lambda>n. JObj [(''name'', JStr n)]) server_names))]"
| "encode (Result st duration turns cost text denials) =
     JObj ([(''type'', JStr ''result''), (''subtype'', JStr (subtype_name st)),
            (''duration_ms'', JNum duration), (''num_turns'', JNum turns),
            (''total_cost_usd'', JNum cost)]
           @ (case text of None \<Rightarrow> [] | Some t \<Rightarrow> [(''result'', JStr t)])
           @ [(''permission_denials'', JArr (replicate denials (JObj [])))])"

section \<open>Observations of a run\<close>

fun is_Query :: "effect \<Rightarrow> bool" where
  "is_Query (Query opts) = True"
| "is_Query e = False"

fun is_SetEnv :: "effect \<Rightarrow> bool" where
  "is_SetEnv (SetEnv name v) = True"
| "is_SetEnv e = False"

fun is_stderr :: "effect \<Rightarrow> bool" where
  "is_stderr (ConsoleError s) = True"
| "is_stderr (ConsoleErrorValue v) = True"
| "is_stderr (ConsoleErrorLabelled s v) = True"
| "is_stderr (ConsoleErrorWith s e) = True"
| "is_stderr e = False"

text \<open>What a run wrote to the standard error, and the sessions it started.\<close>

definition stderr :: "'a prog \<Rightarrow> effect list" where
  "stderr m = filter is_stderr (fst m)"

definition queries :: "'a prog \<Rightarrow> query_options list" where
  "queries m = concat (map (\<lambda>e. case e of Query opts \<Rightarrow> [opts] | _ \<Rightarrow> []) (fst m))"

text \<open>The commands that a run gave to \<open>execSync\<close>.\<close>

definition commands :: "'a prog \<Rightarrow> string list" where
  "commands m =
     concat (map (\<lambda>e. case e of ExecSync command options \<Rightarrow> [command] | _ \<Rightarrow> []) (fst m))"

text \<open>The part of a trace from the first call of \<open>query\<close> on.\<close>

definition from_session_start :: "effect list \<Rightarrow> effect list" where
  "from_session_start out = dropWhile (\<lambda>e. \<not> is_Query e) out"

text \<open>A computation that only writes to the standard output, and may throw.\<close>

definition logging :: "'a prog \<Rightarrow> bool" where
  "logging m \<longleftrightarrow> (\<forall>e \<in> set (fst m). \<exists>s. e = ConsoleLog s) \<and> (\<forall>n. snd m \<noteq> Inl (Exit n))"

text \<open>The required inputs of the script, and whether one is present and not empty.\<close>

definition required_inputs :: "string list" where
  "required_inputs =
     [''ANTHROPIC_API_KEY'', ''GITHUB_TOKEN'', ''GITHUB_REPOSITORY'', ''PR_NUMBER'', ''HEAD_SHA'']"

definition present :: "(string \<rightharpoonup> string) \<Rightarrow> string \<Rightarrow> bool" where
  "present process_env name = (case process_env name of None \<Rightarrow> False | Some s \<Rightarrow> s \<noteq> [])"

text \<open>What a part of a template literal prints, when its value converts to a string.\<close>

fun part_text :: "engine \<Rightarrow> template_part \<Rightarrow> string" where
  "part_text E (Lit s) = s"
| "part_text E (Sub v) = (case to_string E v of Inl e \<Rightarrow> [] | Inr s \<Rightarrow> s)"

fun converts :: "engine \<Rightarrow> template_part \<Rightarrow> bool" where
  "converts E (Lit s) = True"
| "converts E (Sub v) = (case to_string E v of Inl e \<Rightarrow> False | Inr s \<Rightarrow> True)"

text \<open>What a template literal prints for a variable of the environment.\<close>

definition env_text :: "(string \<rightharpoonup> string) \<Rightarrow> string \<Rightarrow> string" where
  "env_text process_env name = (case process_env name of None \<Rightarrow> ''undefined'' | Some s \<Rightarrow> s)"

text \<open>Whether a text occurs in another one.\<close>

fun starts_with :: "string \<Rightarrow> string \<Rightarrow> bool" where
  "starts_with s [] = True"
| "starts_with [] (p # ps) = False"
| "starts_with (c # cs) (p # ps) = (c = p \<and> starts_with cs ps)"

fun occurs_in :: "string \<Rightarrow> string \<Rightarrow> bool" where
  "occurs_in p [] = (p = [])"
| "occurs_in p (c # cs) = (starts_with (c # cs) p \<or> occurs_in p cs)"

text \<open>Sample inputs, for the concrete runs below.\<close>

definition sample_engine :: engine where
  "sample_engine = \<lparr>NumberToString = (\<lambda>x. ''NaN''), StringGtZero = (\<lambda>s. False),
     TypeErrorMessage = ''Cannot read properties of undefined''\<rparr>"

definition sample_env :: "string \<rightharpoonup> string" where
  "sample_env =
     [''ANTHROPIC_API_KEY'' \<mapsto> ''sk-key'', ''GITHUB_TOKEN'' \<mapsto> ''ghs-token'',
      ''GITHUB_REPOSITORY'' \<mapsto> ''acme/widgets'', ''PR_NUMBER'' \<mapsto> ''7'',
      ''HEAD_SHA'' \<mapsto> ''abc123'']"

section \<open>Laws of sequencing\<close>

lemma console_log_pair: "console_log s = ([ConsoleLog s], Inr ())"
  by (simp add: console_log_def perform_def)

lemma and_then_done [simp]: "and_then (done_with x) f = f x"
  by (simp add: and_then_def done_with_def split: prod.splits)

lemma and_then_attempt [simp]:
  "and_then (attempt (Inr x)) f = f x"
  "and_then (attempt (Inl e)) f = ([], Inl (Throw e))"
  by (simp_all add: and_then_def attempt_def split: prod.splits)

lemma and_then_perform [simp]: "and_then (perform e) f = (e # fst (f ()), snd (f ()))"
  by (simp add: and_then_def perform_def split: prod.splits)

lemma and_then_console_log [simp]:
  "and_then (console_log s) f = (ConsoleLog s # fst (f ()), snd (f ()))"
  by (simp add: console_log_def)

lemma and_then_console_error [simp]:
  "and_then (console_error s) f = (ConsoleError s # fst (f ()), snd (f ()))"
  by (simp add: console_error_def)

lemma and_then_prop_is [simp]:
  "and_then (prop_is v p lit) f =
     (case get_prop v p of Inl e \<Rightarrow> ([], Inl (Throw e)) | Inr x \<Rightarrow> f (x = JStr lit))"
  by (simp add: prop_is_def and_then_def attempt_def done_with_def split: sum.splits prod.splits)

lemma log_template_pair:
  "log_template E parts =
     (case template E parts of Inl e \<Rightarrow> ([], Inl (Throw e)) | Inr s \<Rightarrow> ([ConsoleLog s], Inr ()))"
  by (simp add: log_template_def and_then_def attempt_def console_log_def perform_def
           split: sum.splits)

lemma and_then_log_template [simp]:
  "and_then (log_template E parts) f =
     (case template E parts of
        Inl e \<Rightarrow> ([], Inl (Throw e))
      | Inr s \<Rightarrow> (ConsoleLog s # fst (f ()), snd (f ())))"
  by (simp add: log_template_pair and_then_def split: sum.splits prod.splits)

lemma and_then_pair [simp]:
  "and_then (out, Inr x) f = (out @ fst (f x), snd (f x))"
  "and_then (out, Inl i) f = (out, Inl i)"
  by (simp_all add: and_then_def split: prod.splits)

lemma and_then_assoc: "and_then (and_then m f) g = and_then m (\<lambda>x. and_then (f x) g)"
  by (auto simp: and_then_def split: prod.splits sum.splits)

lemma and_then_done_right: "and_then m done_with = m"
  by (auto simp: and_then_def done_with_def split: prod.splits sum.splits)

lemma prog_results [simp]:
  "fst (done_with x) = []" "snd (done_with x) = Inr x"
  "fst (console_log s) = [ConsoleLog s]" "snd (console_log s) = Inr ()"
  "fst (process_exit n) = []" "snd (process_exit n) = Inl (Exit n)"
  by (simp_all add: done_with_def console_log_def perform_def process_exit_def)

lemma and_then_results:
  "fst (and_then m f) = (case snd m of Inl i \<Rightarrow> fst m | Inr x \<Rightarrow> fst m @ fst (f x))"
  "snd (and_then m f) = (case snd m of Inl i \<Rightarrow> Inl i | Inr x \<Rightarrow> snd (f x))"
  by (cases m; auto simp: and_then_def split: prod.splits sum.splits)+

section \<open>Loops\<close>

lemma for_each_append:
  "for_each (xs @ ys) body = and_then (for_each xs body) (\<lambda>_. for_each ys body)"
  by (induction xs) (simp_all add: and_then_assoc)

lemma for_each_handled:
  "(\<And>x. x \<in> set xs \<Longrightarrow> snd (body x) = Inr ()) \<Longrightarrow>
   for_each xs body = (concat (map (\<lambda>x. fst (body x)) xs), Inr ())"
proof (induction xs)
  case Nil
  then show ?case by (simp add: done_with_def)
next
  case (Cons x xs)
  have first: "snd (body x) = Inr ()"
    using Cons.prems by simp
  have others: "for_each xs body = (concat (map (\<lambda>x. fst (body x)) xs), Inr ())"
    using Cons by simp
  show ?case
    by (rule prod_eqI) (simp_all add: and_then_results first others)
qed

lemma for_each_interrupted:
  assumes "\<And>x. x \<in> set pre \<Longrightarrow> snd (body x) = Inr ()" and "snd (body m) = Inl i"
  shows "for_each (pre @ m # rest) body = (concat (map (\<lambda>x. fst (body x)) pre) @ fst (body m), Inl i)"
proof -
  have "for_each (m # rest) body = (fst (body m), Inl i)"
    by (rule prod_eqI) (simp_all add: and_then_results assms(2))
  then show ?thesis
    by (simp add: for_each_append for_each_handled [OF assms(1)])
qed


section \<open>Handlers only log\<close>

lemma logging_basic:
  "logging (done_with x)" "logging (attempt r)" "logging (console_log s)"
  by (auto simp: logging_def done_with_def attempt_def console_log_def perform_def split: sum.splits)

lemma logging_and_then:
  "logging m \<Longrightarrow> (\<And>x. logging (f x)) \<Longrightarrow> logging (and_then m f)"
  by (cases m) (auto simp: logging_def and_then_def split: sum.splits prod.splits, (metis fst_conv snd_conv)+)

lemma logging_if: "(c \<Longrightarrow> logging a) \<Longrightarrow> (\<not> c \<Longrightarrow> logging b) \<Longrightarrow> logging (if c then a else b)"
  by simp

lemma logging_prop_is: "logging (prop_is v p lit)"
  by (simp add: prop_is_def logging_and_then logging_basic)

lemma logging_log_template: "logging (log_template E parts)"
  by (simp add: log_template_pair logging_def split: sum.splits)

lemma logging_for_each: "(\<And>x. logging (body x)) \<Longrightarrow> logging (for_each xs body)"
  by (induction xs) (simp_all add: logging_basic logging_and_then)

lemmas logging_intros =
  logging_and_then logging_if logging_prop_is logging_log_template logging_for_each logging_basic

lemma logging_log_content: "logging (log_content E content)"
  unfolding log_content_def by (intro logging_intros)

lemma logging_on_assistant: "logging (on_assistant E message)"
  unfolding on_assistant_def by (intro logging_intros logging_log_content)

lemma logging_on_result: "logging (on_result E message)"
  unfolding on_result_def by (intro logging_intros)

lemma logging_on_system_init: "logging (on_system_init E message)"
  unfolding on_system_init_def by (intro logging_intros)

lemma logging_on_message: "logging (on_message E message)"
  unfolding on_message_def
  by (intro logging_intros logging_on_assistant logging_on_result logging_on_system_init)

lemma logging_for_await: "logging (for_await messages ending (on_message E))"
  unfolding for_await_def
  by (cases ending) (auto intro!: logging_intros logging_on_message)


section \<open>Well-formed events are handled without an exception\<close>

lemma log_content_encode_segment:
  "log_content E (encode_segment seg) =
     (case seg of
        Text body \<Rightarrow> ([ConsoleLog (''\<newline>[Assistant] '' @ body @ ''\<newline>'')], Inr ())
      | ToolInvocation name input \<Rightarrow>
          ([ConsoleLog (''\<newline>[Tool Use] '' @ name),
            ConsoleLog (case JSON_stringify E 0 input of None \<Rightarrow> ''undefined'' | Some t \<Rightarrow> t)],
           Inr ()))"
  by (cases seg) (simp_all add: log_content_def console_log_pair log_template_pair)

lemma handled_segment: "snd (log_content E (encode_segment seg)) = Inr ()"
  by (simp add: log_content_encode_segment split: segment.splits)

lemma for_each_segments:
  "for_each (map encode_segment segments) (log_content E) =
     (concat (map (\<lambda>seg. fst (log_content E (encode_segment seg))) segments), Inr ())"
  by (subst for_each_handled) (auto simp: handled_segment comp_def)

lemma on_assistant_encode:
  "on_message E (encode (Assistant segments)) =
     (concat (map (\<lambda>seg. fst (log_content E (encode_segment seg))) segments), Inr ())"
  by (simp add: on_message_def on_assistant_def for_each_segments)

lemma handled_assistant: "snd (on_message E (encode (Assistant segments))) = Inr ()"
  by (simp only: on_assistant_encode snd_conv)

lemma call_map_names:
  "call_map (JArr (map (\<lambda>n. JObj [(''name'', JStr n)]) names)) (\<lambda>s. get_prop s ''name'') =
     Inr (JArr (map JStr names))"
proof -
  have "first_error (map (\<lambda>s. get_prop s ''name'') (map (\<lambda>n. JObj [(''name'', JStr n)]) names)) =
      Inr (map JStr names)"
    by (induction names) simp_all
  then show ?thesis
    unfolding call_map_def by simp
qed

lemma array_join_strings: "array_join E sep (map JStr ss) = Inr (join_with sep ss)"
proof -
  have "first_error (map (\<lambda>x. if x = JUndefined \<or> x = JNull then Inr [] else to_string E x)
          (map JStr ss)) = Inr ss"
    by (induction ss) simp_all
  then show ?thesis
    by (simp add: array_join_def)
qed

lemma on_system_init_encode:
  "on_message E (encode (SystemInit model_name dir tool_names server_names)) =
     (map ConsoleLog
        [''[System] Initialized'', ''  Model: '' @ model_name,
         ''  Working Directory: '' @ dir,
         ''  Tools: '' @ join_with '', '' tool_names,
         ''  MCP Servers: ''
           @ (if join_with '', '' server_names \<noteq> [] then join_with '', '' server_names else ''none'')],
      Inr ())"
  by (simp add: on_message_def on_system_init_def call_join_def call_map_names
        array_join_strings log_template_pair)

lemma handled_system_init:
  "snd (on_message E (encode (SystemInit model_name dir tool_names server_names))) = Inr ()"
  by (simp only: on_system_init_encode snd_conv)

lemma on_result_encode:
  "on_message E (encode (Result st duration turns cost result_text denials)) =
     (map ConsoleLog
        ([''\<newline>=== Review Completed ==='',
          ''Duration: '' @ number_to_string E duration @ ''ms'',
          ''Turns: '' @ number_to_string E turns,
          ''Cost: $'' @ toFixed4 E cost,
          ''Status: '' @ subtype_name st]
         @ (if subtype_name st = ''success'' then
              [''\<newline>Result: '' @ (case result_text of None \<Rightarrow> ''undefined'' | Some t \<Rightarrow> t)]
            else if subtype_name st = ''error_max_turns'' then
              [''\<newline>'' @ warning_sign @ '' Review reached maximum turns limit'']
            else if subtype_name st = ''error_during_execution'' then
              [''\<newline>'' @ cross_mark @ '' Error occurred during review execution'']
            else [])
         @ (if 0 < denials then
              [''\<newline>'' @ warning_sign @ '' Permission denials: '' @ number_to_string E (of_nat denials)]
            else [])),
      Inr ())"
  by (cases result_text)
     (simp_all add: on_message_def on_result_def call_toFixed4_def console_log_pair log_template_pair)

lemma handled_result:
  "snd (on_message E (encode (Result st duration turns cost result_text denials))) = Inr ()"
  by (simp only: on_result_encode snd_conv)

lemma handled: "snd (on_message E (encode ev)) = Inr ()"
  by (cases ev) (simp_all only: handled_assistant handled_system_init handled_result)

lemmas encoded_events =
  on_assistant_encode on_system_init_encode on_result_encode log_content_encode_segment


section \<open>The shape of a run of \<open>runAgent\<close>\<close>

lemma for_await_Closed: "for_await ms Closed body = for_each ms body"
  by (simp add: for_await_def and_then_done_right)

lemma for_await_Broken:
  "for_await ms (Broken e) body = and_then (for_each ms body) (\<lambda>_. attempt (Inl e))"
  by (simp add: for_await_def)


lemma runAgent_StartFails:
  assumes "review_prompt E pr repo_id sha = Inr prompt_text"
  shows "runAgent E (StartFails e) dir penv pr repo_id sha sp =
     ([Query (review_query prompt_text sp dir penv), ConsoleErrorWith ''Fatal error:'' e],
      Inl (Exit 1))"
  by (simp add: runAgent_def assms try_catch_def attempt_def process_exit_def)

lemma runAgent_Stream:
  assumes "review_prompt E pr repo_id sha = Inr prompt_text"
  shows "runAgent E (Stream ms ending) dir penv pr repo_id sha sp =
     (let loop = for_await ms ending (on_message E);
          start = [Query (review_query prompt_text sp dir penv),
                   ConsoleLog ''\<newline>=== Starting PR Review ===\<newline>'']
      in case snd loop of
           Inr u \<Rightarrow>
             (start @ fst loop
                @ [ConsoleLog (''\<newline>'' @ check_mark @ '' PR Review Agent completed successfully'')],
              Inr ())
         | Inl (Throw e) \<Rightarrow>
             (start @ fst loop @ [ConsoleErrorWith ''Fatal error:'' e], Inl (Exit 1))
         | Inl (Exit n) \<Rightarrow> (start @ fst loop, Inl (Exit n)))"
proof (cases "for_await ms ending (on_message E)")
  case (Pair out r)
  then show ?thesis
    by (cases r; simp add: runAgent_def assms try_catch_def process_exit_def Let_def
          split: interrupt.splits)
qed

section \<open>Template literals\<close>

lemma template_converts:
  "list_all (converts E) parts \<Longrightarrow> template E parts = Inr (concat (map (part_text E) parts))"
proof (induction parts)
  case Nil
  show ?case by simp
next
  case (Cons part parts)
  then show ?case
    by (cases part) (auto split: sum.splits)
qed

lemma to_string_env_var: "to_string E (env_var penv name) = Inr (env_text penv name)"
  by (simp add: env_var_def env_text_def split: option.splits)

lemma to_string_element:
  "\<exists>s. to_string E (element (map JStr ss) i) = Inr s"
  by (simp add: element_def)

section \<open>Texts inside texts\<close>

lemma starts_with_append [simp]: "starts_with (p @ s) p"
  by (induction p) simp_all

lemma occurs_in_middle: "occurs_in p (a @ p @ b)"
proof (induction a)
  case Nil
  show ?case
    using starts_with_append [of p b] by (cases "p @ b") auto
next
  case (Cons x a)
  then show ?case by simp
qed

lemma starts_with_split: "starts_with s p \<Longrightarrow> \<exists>b. s = p @ b"
  by (induction s p rule: starts_with.induct) auto

lemma occurs_in_split: "occurs_in p s \<Longrightarrow> \<exists>a b. s = a @ p @ b"
proof (induction s)
  case Nil
  then show ?case by simp
next
  case (Cons c cs)
  from Cons.prems have "starts_with (c # cs) p \<or> occurs_in p cs" by simp
  then show ?case
  proof
    assume "starts_with (c # cs) p"
    then obtain b where "c # cs = p @ b" using starts_with_split by blast
    then have "c # cs = [] @ p @ b" by simp
    then show ?thesis by blast
  next
    assume "occurs_in p cs"
    then obtain a b where "cs = a @ p @ b" using Cons.IH by blast
    then have "c # cs = (c # a) @ p @ b" by simp
    then show ?thesis by blast
  qed
qed

lemma occurs_in_window:
  assumes "occurs_in p (concat (take n (drop k xs)))"
  shows "occurs_in p (concat xs)"
proof -
  obtain a b where "concat (take n (drop k xs)) = a @ p @ b"
    using occurs_in_split [OF assms] by blast
  moreover have "concat xs = concat (take k xs) @ concat (take n (drop k xs)) @ concat (drop n (drop k xs))"
    by (metis append_take_drop_id concat_append)
  ultimately have "concat xs = (concat (take k xs) @ a) @ p @ (b @ concat (drop n (drop k xs)))"
    by simp
  then show ?thesis
    using occurs_in_middle by metis
qed

lemma starts_with_refl [simp]: "starts_with p p"
  using starts_with_append [of p "[]"] by simp

lemma template_window:
  assumes "list_all (converts E) parts"
    and "occurs_in p (concat (map (part_text E) (take n (drop k parts))))"
  shows "\<exists>text. template E parts = Inr text \<and> occurs_in p text"
proof -
  have "occurs_in p (concat (take n (drop k (map (part_text E) parts))))"
    using assms(2) by (simp add: take_map drop_map)
  then have "occurs_in p (concat (map (part_text E) parts))"
    by (rule occurs_in_window)
  then show ?thesis
    using template_converts [OF assms(1)] by simp
qed

section \<open>The prompts\<close>

lemma SYSTEM_PROMPT_text:
  assumes "to_string E owner = Inr owner_text" and "to_string E repo = Inr repo_text"
    and "to_string E pr = Inr pr_text" and "to_string E sha = Inr sha_text"
  shows "\<exists>text. SYSTEM_PROMPT E owner repo pr sha = Inr text
           \<and> occurs_in (''repos/'' @ owner_text @ ''/'' @ repo_text @ ''/pulls/'') text"
  unfolding SYSTEM_PROMPT_def
  by (rule template_window [where k = 24 and n = 5]) (simp_all add: assms)

lemma review_prompt_text:
  assumes "to_string E pr = Inr pr_text" and "to_string E repo_id = Inr repo_text"
    and "to_string E sha = Inr sha_text"
  shows "review_prompt E pr repo_id sha =
     Inr (''Review pull request #'' @ pr_text @ '' for repository '' @ repo_text
          @ ''. The PR is at commit '' @ sha_text
          @ ''. Start by examining what changed using the gh CLI commands available to you.'')"
  by (simp add: review_prompt_def assms)

section \<open>What a run writes and how it ends\<close>

lemma stdout_Cons [simp]:
  "stdout (ConsoleLog s # out, r) = s # stdout (out, r)"
  "stdout (ConsoleError s # out, r) = stdout (out, r)"
  "stdout (ConsoleErrorWith s e # out, r) = stdout (out, r)"
  "stdout (SetEnv n v # out, r) = stdout (out, r)"
  "stdout (Query opts # out, r) = stdout (out, r)"
  "stdout (ExecSync command options # out, r) = stdout (out, r)"
  "stdout ([], r) = []"
  by (simp_all add: stdout_def)

lemma stdout_append: "stdout (out @ out', r) = stdout (out, r') @ stdout (out', r'')"
  by (simp add: stdout_def)

lemma stdout_fst: "stdout (fst m, r) = stdout m"
  by (simp add: stdout_def)

lemma stdout_concat:
  "stdout (concat (map (\<lambda>x. fst (f x)) xs), r) = concat (map (\<lambda>x. stdout (f x)) xs)"
  by (induction xs) (simp_all add: stdout_def)

lemma exit_code_simps [simp]:
  "exit_code (out, Inr x) = 0" "exit_code (out, Inl (Exit n)) = n" "exit_code (out, Inl (Throw e)) = 1"
  by (simp_all add: exit_code_def)

lemma logging_stdout: "logging m \<Longrightarrow> map ConsoleLog (stdout m) = fst m"
proof -
  have "(\<forall>e \<in> set out. \<exists>s. e = ConsoleLog s) \<Longrightarrow>
        map ConsoleLog (concat (map (\<lambda>e. case e of ConsoleLog s \<Rightarrow> [s] | _ \<Rightarrow> []) out)) = out" for out
    by (induction out) auto
  then show "logging m \<Longrightarrow> map ConsoleLog (stdout m) = fst m"
    by (simp add: logging_def stdout_def)
qed

lemma stderr_Cons [simp]:
  "stderr (ConsoleLog s # out, r) = stderr (out, r)"
  "stderr (ConsoleError s # out, r) = ConsoleError s # stderr (out, r)"
  "stderr (ConsoleErrorWith s e # out, r) = ConsoleErrorWith s e # stderr (out, r)"
  "stderr (SetEnv n v # out, r) = stderr (out, r)"
  "stderr (Query opts # out, r) = stderr (out, r)"
  "stderr (ExecSync command options # out, r) = stderr (out, r)"
  "stderr (ConsoleLogValue x # out, r) = stderr (out, r)"
  "stderr (ConsoleErrorValue x # out, r) = ConsoleErrorValue x # stderr (out, r)"
  "stderr (ConsoleErrorLabelled s x # out, r) = ConsoleErrorLabelled s x # stderr (out, r)"
  "stderr ([], r) = []"
  by (simp_all add: stderr_def)

lemma logging_no_stderr: "logging m \<Longrightarrow> filter is_stderr (fst m) = []"
  by (auto simp: logging_def filter_empty_conv)

lemma queries_Cons [simp]:
  "queries (Query opts # out, r) = opts # queries (out, r)"
  "queries (ConsoleLog s # out, r) = queries (out, r)"
  "queries (ConsoleError s # out, r) = queries (out, r)"
  "queries (ConsoleErrorWith s e # out, r) = queries (out, r)"
  "queries (SetEnv n v # out, r) = queries (out, r)"
  "queries (ExecSync command options # out, r) = queries (out, r)"
  "queries ([], r) = []"
  by (simp_all add: queries_def)

lemma logging_quiet:
  assumes "logging m"
  shows "queries (fst m @ out, r) = queries (out, r)"
    and "filter is_SetEnv (fst m) = []"
    and "filter is_Query (fst m) = []"
proof -
  have "\<forall>e \<in> set (fst m). \<exists>s. e = ConsoleLog s"
    using assms by (simp add: logging_def)
  then show "filter is_SetEnv (fst m) = []" and "filter is_Query (fst m) = []"
    by (auto simp: filter_empty_conv)
  have "(\<forall>e \<in> set xs. \<exists>s. e = ConsoleLog s) \<Longrightarrow>
        concat (map (\<lambda>e. case e of Query opts \<Rightarrow> [opts] | _ \<Rightarrow> []) xs) = []" for xs
    by (induction xs) auto
  with \<open>\<forall>e \<in> set (fst m). \<exists>s. e = ConsoleLog s\<close>
  show "queries (fst m @ out, r) = queries (out, r)"
    by (simp add: queries_def)
qed

lemma runAgent_Stream_stdout:
  assumes "review_prompt E pr repo_id sha = Inr prompt_text"
  shows "stdout (runAgent E (Stream ms ending) dir penv pr repo_id sha sp) =
     ''\<newline>=== Starting PR Review ===\<newline>'' # stdout (for_await ms ending (on_message E))
       @ (case snd (for_await ms ending (on_message E)) of
            Inr u \<Rightarrow> [''\<newline>'' @ check_mark @ '' PR Review Agent completed successfully'']
          | Inl i \<Rightarrow> [])"
  by (simp add: runAgent_Stream [OF assms] Let_def stdout_fst
           stdout_append [where r' = "Inr ()" and r'' = "Inr ()"]
           split: sum.splits interrupt.splits)

lemma runAgent_Stream_exit_code:
  assumes "review_prompt E pr repo_id sha = Inr prompt_text"
  shows "exit_code (runAgent E (Stream ms ending) dir penv pr repo_id sha sp) =
     (case snd (for_await ms ending (on_message E)) of Inr u \<Rightarrow> 0 | Inl i \<Rightarrow> 1)"
  using logging_for_await [of ms ending E]
  by (auto simp: runAgent_Stream [OF assms] Let_def logging_def split: sum.splits interrupt.splits)

lemma runAgent_Stream_stderr:
  assumes "review_prompt E pr repo_id sha = Inr prompt_text"
  shows "stderr (runAgent E (Stream ms ending) dir penv pr repo_id sha sp) =
     (case snd (for_await ms ending (on_message E)) of
        Inl (Throw e) \<Rightarrow> [ConsoleErrorWith ''Fatal error:'' e]
      | _ \<Rightarrow> [])"
  by (simp add: runAgent_Stream [OF assms] Let_def stderr_def
           logging_no_stderr [OF logging_for_await]
           split: sum.splits interrupt.splits)

lemma runAgent_trace:
  assumes "review_prompt E pr repo_id sha = Inr prompt_text"
  shows "\<exists>rest. fst (runAgent E runtime dir penv pr repo_id sha sp) =
            Query (review_query prompt_text sp dir penv) # rest
     \<and> filter is_SetEnv rest = [] \<and> filter is_Query rest = []"
proof (cases runtime)
  case (StartFails e)
  then show ?thesis by (simp add: runAgent_StartFails [OF assms])
next
  case (Stream ms ending)
  then show ?thesis
    using logging_quiet(2,3) [OF logging_for_await, of ms ending E]
    by (simp add: runAgent_Stream [OF assms] Let_def split: sum.splits interrupt.splits)
qed

lemma runAgent_ends:
  assumes "review_prompt E pr repo_id sha = Inr prompt_text"
  shows "snd (runAgent E runtime dir penv pr repo_id sha sp) = Inr ()
   \<or> snd (runAgent E runtime dir penv pr repo_id sha sp) = Inl (Exit 1)"
proof (cases runtime)
  case (StartFails e)
  then show ?thesis by (simp add: runAgent_StartFails [OF assms])
next
  case (Stream ms ending)
  then show ?thesis
    using logging_for_await [of ms ending E]
    by (auto simp: runAgent_Stream [OF assms] Let_def logging_def split: sum.splits interrupt.splits)
qed

section \<open>The shape of a run of the script\<close>

lemma present_all:
  "list_all (present penv) required_inputs \<longleftrightarrow>
     (\<exists>key tok repo_id pr sha.
        penv ''ANTHROPIC_API_KEY'' = Some key \<and> key \<noteq> [] \<and>
        penv ''GITHUB_TOKEN'' = Some tok \<and> tok \<noteq> [] \<and>
        penv ''GITHUB_REPOSITORY'' = Some repo_id \<and> repo_id \<noteq> [] \<and>
        penv ''PR_NUMBER'' = Some pr \<and> pr \<noteq> [] \<and>
        penv ''HEAD_SHA'' = Some sha \<and> sha \<noteq> [])"
  by (auto simp: required_inputs_def present_def split: option.splits)

lemma sample_env_present: "list_all (present sample_env) required_inputs"
  by (simp add: required_inputs_def present_def sample_env_def)

lemma main_missing_message:
  assumes "\<not> list_all (present penv) required_inputs"
  shows "main E runtime dir penv \<in>
     {([ConsoleError ''Error: ANTHROPIC_API_KEY environment variable is required''], Inl (Exit 1)),
      ([ConsoleError ''Error: GITHUB_TOKEN environment variable is required''], Inl (Exit 1)),
      ([ConsoleError ''Error: GitHub environment variables missing''], Inl (Exit 1))}"
  using assms
  by (auto simp: main_def env_var_def required_inputs_def present_def process_exit_def Let_def
           split: option.splits)

text \<open>
  With every input present the script writes the token to the environment, logs its
  first line, and hands over to \<open>runAgent\<close>.
\<close>

lemma main_present_run:
  assumes "list_all (present penv) required_inputs"
  shows "\<exists>sp prompt_text.
     SYSTEM_PROMPT E
       (element (map JStr (split_on (CHR ''/'') (env_text penv ''GITHUB_REPOSITORY''))) 0)
       (element (map JStr (split_on (CHR ''/'') (env_text penv ''GITHUB_REPOSITORY''))) 1)
       (env_var penv ''PR_NUMBER'') (env_var penv ''HEAD_SHA'') = Inr sp
     \<and> review_prompt E (env_var penv ''PR_NUMBER'') (env_var penv ''GITHUB_REPOSITORY'')
         (env_var penv ''HEAD_SHA'') = Inr prompt_text
     \<and> main E runtime dir penv =
        (SetEnv ''GH_TOKEN'' (env_text penv ''GITHUB_TOKEN'')
           # ConsoleLog (''Starting AI-powered review for '' @ env_text penv ''GITHUB_REPOSITORY''
                         @ ''#'' @ env_text penv ''PR_NUMBER'')
           # fst (runAgent E runtime dir (penv(''GH_TOKEN'' \<mapsto> env_text penv ''GITHUB_TOKEN''))
                    (env_var penv ''PR_NUMBER'') (env_var penv ''GITHUB_REPOSITORY'')
                    (env_var penv ''HEAD_SHA'') sp),
         snd (runAgent E runtime dir (penv(''GH_TOKEN'' \<mapsto> env_text penv ''GITHUB_TOKEN''))
                (env_var penv ''PR_NUMBER'') (env_var penv ''GITHUB_REPOSITORY'')
                (env_var penv ''HEAD_SHA'') sp))"
proof -
  from assms obtain key tok repo_id pr sha where vars:
    "penv ''ANTHROPIC_API_KEY'' = Some key" "key \<noteq> []"
    "penv ''GITHUB_TOKEN'' = Some tok" "tok \<noteq> []"
    "penv ''GITHUB_REPOSITORY'' = Some repo_id" "repo_id \<noteq> []"
    "penv ''PR_NUMBER'' = Some pr" "pr \<noteq> []"
    "penv ''HEAD_SHA'' = Some sha" "sha \<noteq> []"
    unfolding present_all by blast
  obtain owner_text where owner:
    "to_string E (element (map JStr (split_on (CHR ''/'') repo_id)) 0) = Inr owner_text"
    using to_string_element by blast
  obtain repo_text where repo:
    "to_string E (element (map JStr (split_on (CHR ''/'') repo_id)) 1) = Inr repo_text"
    using to_string_element by blast
  obtain sp where sp:
    "SYSTEM_PROMPT E (element (map JStr (split_on (CHR ''/'') repo_id)) 0)
       (element (map JStr (split_on (CHR ''/'') repo_id)) 1) (JStr pr) (JStr sha) = Inr sp"
    using SYSTEM_PROMPT_text [OF owner repo, of "JStr pr" pr "JStr sha" sha] by auto
  have "review_prompt E (JStr pr) (JStr repo_id) (JStr sha) =
      Inr (''Review pull request #'' @ pr @ '' for repository '' @ repo_id
           @ ''. The PR is at commit '' @ sha
           @ ''. Start by examining what changed using the gh CLI commands available to you.'')"
    by (rule review_prompt_text) simp_all
  with vars sp show ?thesis
    by (simp add: main_def env_var_def env_text_def call_split_def Let_def log_template_pair)
qed

lemma main_present_stdout:
  assumes "list_all (present penv) required_inputs"
  shows "stdout (main E (Stream ms ending) dir penv) =
     (''Starting AI-powered review for '' @ env_text penv ''GITHUB_REPOSITORY''
        @ ''#'' @ env_text penv ''PR_NUMBER'')
     # ''\<newline>=== Starting PR Review ===\<newline>''
     # stdout (for_await ms ending (on_message E))
     @ (case snd (for_await ms ending (on_message E)) of
          Inr u \<Rightarrow> [''\<newline>'' @ check_mark @ '' PR Review Agent completed successfully'']
        | Inl i \<Rightarrow> [])"
proof -
  obtain sp prompt_text where
    "review_prompt E (env_var penv ''PR_NUMBER'') (env_var penv ''GITHUB_REPOSITORY'')
       (env_var penv ''HEAD_SHA'') = Inr prompt_text"
    and "main E (Stream ms ending) dir penv =
        (SetEnv ''GH_TOKEN'' (env_text penv ''GITHUB_TOKEN'')
           # ConsoleLog (''Starting AI-powered review for '' @ env_text penv ''GITHUB_REPOSITORY''
                         @ ''#'' @ env_text penv ''PR_NUMBER'')
           # fst (runAgent E (Stream ms ending) dir (penv(''GH_TOKEN'' \<mapsto> env_text penv ''GITHUB_TOKEN''))
                    (env_var penv ''PR_NUMBER'') (env_var penv ''GITHUB_REPOSITORY'')
                    (env_var penv ''HEAD_SHA'') sp),
         snd (runAgent E (Stream ms ending) dir (penv(''GH_TOKEN'' \<mapsto> env_text penv ''GITHUB_TOKEN''))
                (env_var penv ''PR_NUMBER'') (env_var penv ''GITHUB_REPOSITORY'')
                (env_var penv ''HEAD_SHA'') sp))"
    using main_present_run [OF assms] by blast
  then show ?thesis
    by (simp add: stdout_fst runAgent_Stream_stdout)
qed

lemma main_present_exit_code:
  assumes "list_all (present penv) required_inputs"
  shows "exit_code (main E (Stream ms ending) dir penv) =
     (case snd (for_await ms ending (on_message E)) of Inr u \<Rightarrow> 0 | Inl i \<Rightarrow> 1)"
proof -
  obtain sp prompt_text where
    "review_prompt E (env_var penv ''PR_NUMBER'') (env_var penv ''GITHUB_REPOSITORY'')
       (env_var penv ''HEAD_SHA'') = Inr prompt_text"
    and "main E (Stream ms ending) dir penv =
        (SetEnv ''GH_TOKEN'' (env_text penv ''GITHUB_TOKEN'')
           # ConsoleLog (''Starting AI-powered review for '' @ env_text penv ''GITHUB_REPOSITORY''
                         @ ''#'' @ env_text penv ''PR_NUMBER'')
           # fst (runAgent E (Stream ms ending) dir (penv(''GH_TOKEN'' \<mapsto> env_text penv ''GITHUB_TOKEN''))
                    (env_var penv ''PR_NUMBER'') (env_var penv ''GITHUB_REPOSITORY'')
                    (env_var penv ''HEAD_SHA'') sp),
         snd (runAgent E (Stream ms ending) dir (penv(''GH_TOKEN'' \<mapsto> env_text penv ''GITHUB_TOKEN''))
                (env_var penv ''PR_NUMBER'') (env_var penv ''GITHUB_REPOSITORY'')
                (env_var penv ''HEAD_SHA'') sp))"
    using main_present_run [OF assms] by blast
  then show ?thesis
    using runAgent_Stream_exit_code [of E "env_var penv ''PR_NUMBER''"
            "env_var penv ''GITHUB_REPOSITORY''" "env_var penv ''HEAD_SHA''" prompt_text ms ending]
    by (simp add: exit_code_def)
qed

lemma main_present_stderr:
  assumes "list_all (present penv) required_inputs"
  shows "stderr (main E (Stream ms ending) dir penv) =
     (case snd (for_await ms ending (on_message E)) of
        Inl (Throw e) \<Rightarrow> [ConsoleErrorWith ''Fatal error:'' e]
      | _ \<Rightarrow> [])"
proof -
  obtain sp prompt_text where
    "review_prompt E (env_var penv ''PR_NUMBER'') (env_var penv ''GITHUB_REPOSITORY'')
       (env_var penv ''HEAD_SHA'') = Inr prompt_text"
    and "main E (Stream ms ending) dir penv =
        (SetEnv ''GH_TOKEN'' (env_text penv ''GITHUB_TOKEN'')
           # ConsoleLog (''Starting AI-powered review for '' @ env_text penv ''GITHUB_REPOSITORY''
                         @ ''#'' @ env_text penv ''PR_NUMBER'')
           # fst (runAgent E (Stream ms ending) dir (penv(''GH_TOKEN'' \<mapsto> env_text penv ''GITHUB_TOKEN''))
                    (env_var penv ''PR_NUMBER'') (env_var penv ''GITHUB_REPOSITORY'')
                    (env_var penv ''HEAD_SHA'') sp),
         snd (runAgent E (Stream ms ending) dir (penv(''GH_TOKEN'' \<mapsto> env_text penv ''GITHUB_TOKEN''))
                (env_var penv ''PR_NUMBER'') (env_var penv ''GITHUB_REPOSITORY'')
                (env_var penv ''HEAD_SHA'') sp))"
    using main_present_run [OF assms] by blast
  then show ?thesis
    using runAgent_Stream_stderr [of E "env_var penv ''PR_NUMBER''"
            "env_var penv ''GITHUB_REPOSITORY''" "env_var penv ''HEAD_SHA''" prompt_text ms ending]
    by (simp add: stderr_def)
qed

text \<open>
  With every input present the trace of the script starts with the write to the
  environment, the first line and the call of \<open>query\<close>; nothing after them writes to the
  environment or calls \<open>query\<close>.
\<close>

lemma main_present_trace:
  assumes "list_all (present penv) required_inputs"
  shows "\<exists>sp prompt_text rest.
     SYSTEM_PROMPT E
       (element (map JStr (split_on (CHR ''/'') (env_text penv ''GITHUB_REPOSITORY''))) 0)
       (element (map JStr (split_on (CHR ''/'') (env_text penv ''GITHUB_REPOSITORY''))) 1)
       (env_var penv ''PR_NUMBER'') (env_var penv ''HEAD_SHA'') = Inr sp
     \<and> fst (main E runtime dir penv) =
         SetEnv ''GH_TOKEN'' (env_text penv ''GITHUB_TOKEN'')
         # ConsoleLog (''Starting AI-powered review for '' @ env_text penv ''GITHUB_REPOSITORY''
                       @ ''#'' @ env_text penv ''PR_NUMBER'')
         # Query (review_query prompt_text sp dir
                    (penv(''GH_TOKEN'' \<mapsto> env_text penv ''GITHUB_TOKEN'')))
         # rest
     \<and> filter is_SetEnv rest = [] \<and> filter is_Query rest = []"
proof -
  obtain sp prompt_text where sp:
    "SYSTEM_PROMPT E
       (element (map JStr (split_on (CHR ''/'') (env_text penv ''GITHUB_REPOSITORY''))) 0)
       (element (map JStr (split_on (CHR ''/'') (env_text penv ''GITHUB_REPOSITORY''))) 1)
       (env_var penv ''PR_NUMBER'') (env_var penv ''HEAD_SHA'') = Inr sp"
    and prompt: "review_prompt E (env_var penv ''PR_NUMBER'') (env_var penv ''GITHUB_REPOSITORY'')
       (env_var penv ''HEAD_SHA'') = Inr prompt_text"
    and run: "main E runtime dir penv =
        (SetEnv ''GH_TOKEN'' (env_text penv ''GITHUB_TOKEN'')
           # ConsoleLog (''Starting AI-powered review for '' @ env_text penv ''GITHUB_REPOSITORY''
                         @ ''#'' @ env_text penv ''PR_NUMBER'')
           # fst (runAgent E runtime dir (penv(''GH_TOKEN'' \<mapsto> env_text penv ''GITHUB_TOKEN''))
                    (env_var penv ''PR_NUMBER'') (env_var penv ''GITHUB_REPOSITORY'')
                    (env_var penv ''HEAD_SHA'') sp),
         snd (runAgent E runtime dir (penv(''GH_TOKEN'' \<mapsto> env_text penv ''GITHUB_TOKEN''))
                (env_var penv ''PR_NUMBER'') (env_var penv ''GITHUB_REPOSITORY'')
                (env_var penv ''HEAD_SHA'') sp))"
    using main_present_run [OF assms] by blast
  obtain rest where
    "fst (runAgent E runtime dir (penv(''GH_TOKEN'' \<mapsto> env_text penv ''GITHUB_TOKEN''))
            (env_var penv ''PR_NUMBER'') (env_var penv ''GITHUB_REPOSITORY'')
            (env_var penv ''HEAD_SHA'') sp) =
       Query (review_query prompt_text sp dir
                (penv(''GH_TOKEN'' \<mapsto> env_text penv ''GITHUB_TOKEN''))) # rest"
    "filter is_SetEnv rest = []" "filter is_Query rest = []"
    using runAgent_trace [OF prompt] by blast
  with sp run show ?thesis
    by auto
qed

lemma main_ends:
  "snd (main E runtime dir penv) = Inr () \<or> snd (main E runtime dir penv) = Inl (Exit 1)"
proof (cases "list_all (present penv) required_inputs")
  case True
  obtain sp prompt_text where
    "review_prompt E (env_var penv ''PR_NUMBER'') (env_var penv ''GITHUB_REPOSITORY'')
       (env_var penv ''HEAD_SHA'') = Inr prompt_text"
    and "main E runtime dir penv =
        (SetEnv ''GH_TOKEN'' (env_text penv ''GITHUB_TOKEN'')
           # ConsoleLog (''Starting AI-powered review for '' @ env_text penv ''GITHUB_REPOSITORY''
                         @ ''#'' @ env_text penv ''PR_NUMBER'')
           # fst (runAgent E runtime dir (penv(''GH_TOKEN'' \<mapsto> env_text penv ''GITHUB_TOKEN''))
                    (env_var penv ''PR_NUMBER'') (env_var penv ''GITHUB_REPOSITORY'')
                    (env_var penv ''HEAD_SHA'') sp),
         snd (runAgent E runtime dir (penv(''GH_TOKEN'' \<mapsto> env_text penv ''GITHUB_TOKEN''))
                (env_var penv ''PR_NUMBER'') (env_var penv ''GITHUB_REPOSITORY'')
                (env_var penv ''HEAD_SHA'') sp))"
    using main_present_run [OF True] by blast
  then show ?thesis
    using runAgent_ends by simp
next
  case False
  then show ?thesis
    using main_missing_message [OF False, of E runtime dir] by auto
qed

lemma queries_main_present:
  assumes "list_all (present penv) required_inputs"
  shows "\<exists>sp prompt_text.
     SYSTEM_PROMPT E
       (element (map JStr (split_on (CHR ''/'') (env_text penv ''GITHUB_REPOSITORY''))) 0)
       (element (map JStr (split_on (CHR ''/'') (env_text penv ''GITHUB_REPOSITORY''))) 1)
       (env_var penv ''PR_NUMBER'') (env_var penv ''HEAD_SHA'') = Inr sp
     \<and> queries (main E runtime dir penv) =
         [review_query prompt_text sp dir (penv(''GH_TOKEN'' \<mapsto> env_text penv ''GITHUB_TOKEN''))]"
proof -
  have quiet: "filter is_Query rest = [] \<Longrightarrow>
        concat (map (\<lambda>e. case e of Query opts \<Rightarrow> [opts] | _ \<Rightarrow> []) rest) = []" for rest
    by (induction rest) (auto split: effect.splits if_splits)
  obtain sp prompt_text rest where sp:
    "SYSTEM_PROMPT E
       (element (map JStr (split_on (CHR ''/'') (env_text penv ''GITHUB_REPOSITORY''))) 0)
       (element (map JStr (split_on (CHR ''/'') (env_text penv ''GITHUB_REPOSITORY''))) 1)
       (env_var penv ''PR_NUMBER'') (env_var penv ''HEAD_SHA'') = Inr sp"
    and trace: "fst (main E runtime dir penv) =
         SetEnv ''GH_TOKEN'' (env_text penv ''GITHUB_TOKEN'')
         # ConsoleLog (''Starting AI-powered review for '' @ env_text penv ''GITHUB_REPOSITORY''
                       @ ''#'' @ env_text penv ''PR_NUMBER'')
         # Query (review_query prompt_text sp dir
                    (penv(''GH_TOKEN'' \<mapsto> env_text penv ''GITHUB_TOKEN'')))
         # rest"
    and rest: "filter is_Query rest = []"
    using main_present_trace [OF assms] by blast
  have "queries (main E runtime dir penv) =
      [review_query prompt_text sp dir (penv(''GH_TOKEN'' \<mapsto> env_text penv ''GITHUB_TOKEN''))]"
    by (simp add: queries_def trace quiet [OF rest])
  with sp show ?thesis
    by blast
qed

lemma queries_main_missing:
  assumes "\<not> list_all (present penv) required_inputs"
  shows "queries (main E runtime dir penv) = []"
  using main_missing_message [OF assms, of E runtime dir] by (auto simp: queries_def)

section \<open>Streams of well-formed events\<close>

lemma for_each_encoded:
  "for_each (map encode events) (on_message E) =
     (concat (map (\<lambda>ev. fst (on_message E (encode ev))) events), Inr ())"
  by (subst for_each_handled) (auto simp: handled comp_def)

lemma for_await_encoded:
  "for_await (map encode events) Closed (on_message E) =
     (concat (map (\<lambda>ev. fst (on_message E (encode ev))) events), Inr ())"
  by (simp add: for_await_Closed for_each_encoded)

lemma for_await_encoded_stdout:
  "stdout (for_await (map encode events) Closed (on_message E)) =
     concat (map (\<lambda>ev. stdout (on_message E (encode ev))) events)"
  by (simp add: for_await_encoded stdout_concat)

lemma main_encoded_exit_code:
  assumes "list_all (present penv) required_inputs"
  shows "exit_code (main E (Stream (map encode events) Closed) dir penv) = 0"
  by (simp add: main_present_exit_code [OF assms] for_await_encoded)

lemma main_encoded_stderr:
  assumes "list_all (present penv) required_inputs"
  shows "stderr (main E (Stream (map encode events) Closed) dir penv) = []"
  by (simp add: main_present_stderr [OF assms] for_await_encoded)

lemma main_encoded_stdout:
  assumes "list_all (present penv) required_inputs"
  shows "stdout (main E (Stream (map encode events) Closed) dir penv) =
     (''Starting AI-powered review for '' @ env_text penv ''GITHUB_REPOSITORY''
        @ ''#'' @ env_text penv ''PR_NUMBER'')
     # ''\<newline>=== Starting PR Review ===\<newline>''
     # concat (map (\<lambda>ev. stdout (on_message E (encode ev))) events)
     @ [''\<newline>'' @ check_mark @ '' PR Review Agent completed successfully'']"
  by (simp add: main_present_stdout [OF assms] for_await_encoded_stdout)
     (simp add: for_await_encoded)


lemma result_without_cost:
  "on_message E (JObj [(''type'', JStr ''result''), (''subtype'', JStr ''success'')]) =
     (map ConsoleLog
        [''\<newline>=== Review Completed ==='', ''Duration: undefinedms'', ''Turns: undefined''],
      Inl (Throw TypeError))"
  by (simp add: on_message_def on_result_def call_toFixed4_def)

lemma for_await_interrupted:
  assumes "list_all (\<lambda>m. snd (on_message E m) = Inr ()) earlier"
    and "snd (on_message E bad) = Inl (Throw e)"
  shows "for_await (earlier @ bad # later) ending (on_message E) =
     (concat (map (\<lambda>m. fst (on_message E m)) earlier) @ fst (on_message E bad), Inl (Throw e))"
proof -
  have "for_each (earlier @ bad # later) (on_message E) =
      (concat (map (\<lambda>m. fst (on_message E m)) earlier) @ fst (on_message E bad), Inl (Throw e))"
    using assms by (intro for_each_interrupted) (simp_all add: list_all_iff)
  then show ?thesis
    by (simp add: for_await_def)
qed

lemma split_on_no_separator: "c \<notin> set s \<Longrightarrow> split_on c s = [s]"
  by (induction s) auto


lemma from_session_start_trace:
  "filter is_SetEnv rest = [] \<Longrightarrow>
   filter is_SetEnv (from_session_start (SetEnv n v # ConsoleLog s # Query opts # rest)) = []"
  by (simp add: from_session_start_def)

section \<open>Evaluating the rendering of numbers\<close>

lemma show_nat_digit: "n < 10 \<Longrightarrow> show_nat n = [digit_char n]"
  by (simp add: show_nat.simps)

lemma show_nat_more: "10 \<le> n \<Longrightarrow> show_nat n = show_nat (n div 10) @ [digit_char (n mod 10)]"
  by (subst show_nat.simps) simp


lemma replicate_numeral: "replicate (numeral k) x = x # replicate (pred_numeral k) x"
  by (simp add: numeral_eq_Suc)


lemma toFixed4_twelve_cents:
  assumes "\<bar>cost - 12 / 100\<bar> < 1 / 20000"
  shows "toFixed4 E cost = ''0.1200''"
proof -
  from assms have "cost - 12 / 100 < 1 / 20000" and "- (cost - 12 / 100) < 1 / 20000"
    unfolding abs_less_iff by blast+
  then have bounds: "2399 / 20000 < cost" "cost < 2401 / 20000"
    by linarith+
  then have "\<lfloor>cost * 10 ^ 4 + 1 / 2\<rfloor> = 1200"
    by (intro floor_unique) simp_all
  moreover from bounds have "\<not> cost < 0" "\<bar>cost\<bar> = cost" "\<not> 10 ^ 21 \<le> cost"
    by simp_all
  ultimately show ?thesis
    by (simp add: toFixed4_def Let_def show_nat_digit show_nat_more digit_char_def replicate_numeral)
qed

section \<open>The command-line script\<close>

text \<open>
  The same five inputs are checked with the same text: when one is missing, the two
  scripts do the same, whatever the runtime and the child processes would have done.
\<close>

lemma main_cli_missing_message:
  assumes "\<not> list_all (present penv) required_inputs"
  shows "main_cli E configured reviewed dir penv \<in>
     {([ConsoleError ''Error: ANTHROPIC_API_KEY environment variable is required''], Inl (Exit 1)),
      ([ConsoleError ''Error: GITHUB_TOKEN environment variable is required''], Inl (Exit 1)),
      ([ConsoleError ''Error: GitHub environment variables missing''], Inl (Exit 1))}"
  using assms
  by (auto simp: main_cli_def env_var_def required_inputs_def present_def process_exit_def Let_def
           split: option.splits)

lemma main_cli_missing_main:
  assumes "\<not> list_all (present penv) required_inputs"
  shows "main_cli E configured reviewed dir penv = main E runtime dir penv"
  using assms
  by (auto simp: main_cli_def main_def env_var_def required_inputs_def present_def Let_def
           split: option.splits)

lemma REVIEW_PROMPT_text:
  assumes "to_string E owner = Inr owner_text" and "to_string E repo = Inr repo_text"
    and "to_string E repo_id = Inr repo_id_text"
    and "to_string E pr = Inr pr_text" and "to_string E sha = Inr sha_text"
  shows "\<exists>text. REVIEW_PROMPT E owner repo repo_id pr sha = Inr text
           \<and> occurs_in (''repos/'' @ owner_text @ ''/'' @ repo_text @ ''/pulls/'') text"
  unfolding REVIEW_PROMPT_def
  by (rule template_window [where k = 25 and n = 5]) (simp_all add: assms)

text \<open>The two calls of \<open>execSync\<close>, each in its \<open>try\<close>.\<close>

lemma execSync_pair:
  "execSync command options (Returned output) = ([ExecSync command options], Inr output)"
  "execSync command options (Failed e) = ([ExecSync command options], Inl (Throw (Thrown e)))"
  by (simp_all add: execSync_def attempt_def done_with_def)

lemma configure_cline_Returned:
  assumes "to_string E key = Inr key_text"
  shows "configure_cline E (Returned output) key =
     ([ExecSync (''cline config set api-key='' @ key_text)
         \<lparr>encoding = ''utf8'', stdio = ''inherit'', exec_env = None, exec_cwd = None\<rparr>,
       ConsoleLog (check_mark @ '' API key configured'')], Inr ())"
  by (simp add: configure_cline_def assms execSync_pair try_catch_def)

lemma configure_cline_Failed:
  assumes "to_string E key = Inr key_text"
  shows "fst (configure_cline E (Failed e) key) \<in>
     {[ExecSync (''cline config set api-key='' @ key_text)
         \<lparr>encoding = ''utf8'', stdio = ''inherit'', exec_env = None, exec_cwd = None\<rparr>],
      [ExecSync (''cline config set api-key='' @ key_text)
         \<lparr>encoding = ''utf8'', stdio = ''inherit'', exec_env = None, exec_cwd = None\<rparr>,
       ConsoleErrorLabelled ''Failed to configure API key:''
         (case get_prop e ''message'' of Inl x \<Rightarrow> JUndefined | Inr v \<Rightarrow> v)]}"
    and "exit_code (configure_cline E (Failed e) key) = 1"
  by (simp_all add: configure_cline_def assms execSync_pair try_catch_def process_exit_def
        attempt_def split: sum.splits)

lemma run_review_Returned:
  "run_review E (Returned (JStr output)) dir penv prompt_text =
     ([ExecSync (review_command prompt_text)
         \<lparr>encoding = ''utf8'', stdio = ''pipe'', exec_env = Some penv, exec_cwd = Some dir\<rparr>,
       ConsoleLog output,
       ConsoleLog (''\<newline>'' @ check_mark @ '' PR Review completed successfully'')], Inr ())"
  by (simp add: run_review_def execSync_pair try_catch_def console_log_value_def)

lemma snd_console_value [simp]:
  "snd (console_log_value v) = Inr ()" "snd (console_error_value v) = Inr ()"
  by (simp_all add: console_log_value_def console_error_value_def console_log_def
        console_error_def perform_def split: jsval.splits)

lemma snd_perform [simp]: "snd (perform e) = Inr ()" "snd (console_error s) = Inr ()"
  by (simp_all add: perform_def console_error_def)

lemma snd_attempt [simp]:
  "snd (attempt r) = (case r of Inl e \<Rightarrow> Inl (Throw e) | Inr x \<Rightarrow> Inr x)"
  by (simp add: attempt_def split: sum.splits)

lemma exit_code_try_catch:
  "exit_code (try_catch (out, Inl (Throw e)) handler) = exit_code (handler e)"
  by (simp add: try_catch_def exit_code_def split: prod.splits)

lemma run_review_Failed:
  "exit_code (run_review E (Failed e) dir penv prompt_text) = 1"
  unfolding run_review_def execSync_pair and_then_pair exit_code_try_catch
  by (simp add: exit_code_def and_then_results split: sum.splits)


lemma commands_Cons [simp]:
  "commands (ExecSync command options # out, r) = command # commands (out, r)"
  "commands (ConsoleLog s # out, r) = commands (out, r)"
  "commands (ConsoleError s # out, r) = commands (out, r)"
  "commands (ConsoleErrorLabelled s v # out, r) = commands (out, r)"
  "commands (SetEnv n x # out, r) = commands (out, r)"
  "commands (ConsoleLogValue v # out, r) = commands (out, r)"
  "commands (ConsoleErrorValue v # out, r) = commands (out, r)"
  "commands ([], r) = []"
  by (simp_all add: commands_def)

lemma commands_append: "commands (out @ out', r) = commands (out, r') @ commands (out', r'')"
  by (simp add: commands_def)

lemma commands_fst: "commands (fst m, r) = commands m"
  by (simp add: commands_def)

lemma commands_and_then:
  "commands (and_then m f) =
     (case snd m of Inl i \<Rightarrow> commands m | Inr x \<Rightarrow> commands m @ commands (f x))"
  by (cases m) (auto simp: commands_def and_then_def split: sum.splits prod.splits)

lemma commands_and_then_quiet:
  "(\<And>x. commands (f x) = []) \<Longrightarrow> commands (and_then m f) = commands m"
  by (simp add: commands_and_then split: sum.splits)

lemma commands_quiet_and_then:
  "commands m = [] \<Longrightarrow> (\<And>x. commands (f x) = []) \<Longrightarrow> commands (and_then m f) = []"
  by (simp add: commands_and_then_quiet)

lemma commands_try_catch_quiet:
  assumes "\<And>e. commands (handler e) = []"
  shows "commands (try_catch m handler) = commands m"
proof (cases m)
  case (Pair out r)
  show ?thesis
  proof (cases r)
    case (Inl i)
    show ?thesis
    proof (cases i)
      case (Throw e)
      obtain out' r' where handled: "handler e = (out', r')"
        by (cases "handler e")
      have "commands (out', r') = []"
        using assms [of e] by (simp add: handled)
      then have "commands (out @ out', r') = commands (out, r)"
        by (simp add: commands_def)
      then show ?thesis
        by (simp add: Pair Inl Throw try_catch_def handled)
    next
      case (Exit n)
      then show ?thesis
        by (simp add: Pair Inl try_catch_def)
    qed
  next
    case (Inr x)
    then show ?thesis
      by (simp add: Pair try_catch_def)
  qed
qed

lemma commands_if [simp]:
  "commands (if c then a else b) = (if c then commands a else commands b)"
  by simp

lemma commands_basic [simp]:
  "commands (console_log s) = []" "commands (console_error s) = []"
  "commands (console_log_value v) = []" "commands (console_error_value v) = []"
  "commands (attempt r) = []" "commands (process_exit n :: 'a prog) = []"
  "commands (done_with x) = []" "commands (perform (ConsoleErrorLabelled s v)) = []"
  by (simp_all add: commands_def console_log_def console_error_def console_log_value_def
        console_error_value_def attempt_def process_exit_def done_with_def perform_def
      split: jsval.splits sum.splits)

lemma commands_execSync [simp]: "commands (execSync command options outcome) = [command]"
  by (cases outcome) (simp_all add: execSync_pair)

lemma commands_configure_cline:
  assumes "to_string E key = Inr key_text"
  shows "commands (configure_cline E configured key) = [''cline config set api-key='' @ key_text]"
  unfolding configure_cline_def
  by (subst commands_try_catch_quiet)
     (simp_all add: commands_and_then_quiet assms)

lemma commands_run_review:
  "commands (run_review E reviewed dir penv prompt_text) = [review_command prompt_text]"
proof -
  have handler: "commands
      (and_then (console_error (''\<newline>'' @ cross_mark @ '' PR Review failed'')) (\<lambda>_.
       and_then (attempt (error_prop E e ''stdout'')) (\<lambda>out.
       and_then
         (if truthy out
          then and_then (console_log ''\<newline>Output:'') (\<lambda>_. console_log_value out)
          else done_with ()) (\<lambda>_.
       and_then (attempt (error_prop E e ''stderr'')) (\<lambda>err.
       and_then
         (if truthy err
          then and_then (console_error ''\<newline>Errors:'') (\<lambda>_. console_error_value err)
          else done_with ()) (\<lambda>_.
       process_exit 1)))))) = []" for e
    by (intro commands_quiet_and_then) (simp_all add: commands_fst)
  show ?thesis
    unfolding run_review_def
    by (subst commands_try_catch_quiet) (simp_all only: handler, simp add: commands_and_then_quiet)
qed

text \<open>
  With every input present the script writes the token to the environment, logs its
  first lines, configures the command line and, when that went well, runs the review.
\<close>

lemma main_cli_present_run:
  assumes "list_all (present penv) required_inputs"
  shows "\<exists>prompt_text.
     REVIEW_PROMPT E
       (element (map JStr (split_on (CHR ''/'') (env_text penv ''GITHUB_REPOSITORY''))) 0)
       (element (map JStr (split_on (CHR ''/'') (env_text penv ''GITHUB_REPOSITORY''))) 1)
       (env_var penv ''GITHUB_REPOSITORY'') (env_var penv ''PR_NUMBER'')
       (env_var penv ''HEAD_SHA'') = Inr prompt_text
     \<and> main_cli E configured reviewed dir penv =
        and_then
          (SetEnv ''GH_TOKEN'' (env_text penv ''GITHUB_TOKEN'')
             # ConsoleLog (''Starting AI-powered review for '' @ env_text penv ''GITHUB_REPOSITORY''
                           @ ''#'' @ env_text penv ''PR_NUMBER'')
             # ConsoleLog ''\<newline>=== Configuring Cline ===''
             # fst (configure_cline E configured (env_var penv ''ANTHROPIC_API_KEY'')),
           snd (configure_cline E configured (env_var penv ''ANTHROPIC_API_KEY''))) (\<lambda>_.
        and_then (console_log ''\<newline>=== Starting PR Review ===\<newline>'') (\<lambda>_.
        run_review E reviewed dir (penv(''GH_TOKEN'' \<mapsto> env_text penv ''GITHUB_TOKEN''))
          prompt_text))"
proof -
  from assms obtain key tok repo_id pr sha where vars:
    "penv ''ANTHROPIC_API_KEY'' = Some key" "key \<noteq> []"
    "penv ''GITHUB_TOKEN'' = Some tok" "tok \<noteq> []"
    "penv ''GITHUB_REPOSITORY'' = Some repo_id" "repo_id \<noteq> []"
    "penv ''PR_NUMBER'' = Some pr" "pr \<noteq> []"
    "penv ''HEAD_SHA'' = Some sha" "sha \<noteq> []"
    unfolding present_all by blast
  obtain owner_text where owner:
    "to_string E (element (map JStr (split_on (CHR ''/'') repo_id)) 0) = Inr owner_text"
    using to_string_element by blast
  obtain repo_text where repo:
    "to_string E (element (map JStr (split_on (CHR ''/'') repo_id)) 1) = Inr repo_text"
    using to_string_element by blast
  obtain prompt_text where prompt_text:
    "REVIEW_PROMPT E (element (map JStr (split_on (CHR ''/'') repo_id)) 0)
       (element (map JStr (split_on (CHR ''/'') repo_id)) 1) (JStr repo_id) (JStr pr) (JStr sha) =
       Inr prompt_text"
    using REVIEW_PROMPT_text [OF owner repo, of "JStr repo_id" repo_id "JStr pr" pr "JStr sha" sha]
    by auto
  have "main_cli E configured reviewed dir penv =
      (SetEnv ''GH_TOKEN'' tok
         # ConsoleLog (''Starting AI-powered review for '' @ repo_id @ ''#'' @ pr)
         # ConsoleLog ''\<newline>=== Configuring Cline ===''
         # fst (and_then (configure_cline E configured (JStr key)) (\<lambda>_.
                and_then (console_log ''\<newline>=== Starting PR Review ===\<newline>'') (\<lambda>_.
                run_review E reviewed dir (penv(''GH_TOKEN'' \<mapsto> tok)) prompt_text))),
       snd (and_then (configure_cline E configured (JStr key)) (\<lambda>_.
                and_then (console_log ''\<newline>=== Starting PR Review ===\<newline>'') (\<lambda>_.
                run_review E reviewed dir (penv(''GH_TOKEN'' \<mapsto> tok)) prompt_text))))"
    using vars prompt_text
    by (simp add: main_cli_def env_var_def call_split_def Let_def log_template_pair)
  also have "\<dots> =
      and_then
        (SetEnv ''GH_TOKEN'' tok
           # ConsoleLog (''Starting AI-powered review for '' @ repo_id @ ''#'' @ pr)
           # ConsoleLog ''\<newline>=== Configuring Cline ===''
           # fst (configure_cline E configured (JStr key)),
         snd (configure_cline E configured (JStr key))) (\<lambda>_.
      and_then (console_log ''\<newline>=== Starting PR Review ===\<newline>'') (\<lambda>_.
      run_review E reviewed dir (penv(''GH_TOKEN'' \<mapsto> tok)) prompt_text))"
    by (cases "configure_cline E configured (JStr key)")
       (auto simp: and_then_def split: sum.splits prod.splits)
  finally show ?thesis
    using vars prompt_text by (simp add: env_var_def env_text_def)
qed

text \<open>The two child processes end well: the script ends with exit code 0.\<close>

lemma main_cli_completes:
  assumes "list_all (present penv) required_inputs"
  shows "exit_code (main_cli E (Returned v) (Returned (JStr output)) dir penv) = 0"
    and "stdout (main_cli E (Returned v) (Returned (JStr output)) dir penv) =
      [''Starting AI-powered review for '' @ env_text penv ''GITHUB_REPOSITORY''
         @ ''#'' @ env_text penv ''PR_NUMBER'',
       ''\<newline>=== Configuring Cline ==='',
       check_mark @ '' API key configured'',
       ''\<newline>=== Starting PR Review ===\<newline>'',
       output,
       ''\<newline>'' @ check_mark @ '' PR Review completed successfully'']"
    and "stderr (main_cli E (Returned v) (Returned (JStr output)) dir penv) = []"
    and "length (commands (main_cli E (Returned v) (Returned (JStr output)) dir penv)) = 2"
  using main_cli_present_run [OF assms, of E "Returned v" "Returned (JStr output)" dir]
  by (auto simp: configure_cline_Returned [OF to_string_env_var] run_review_Returned)

text \<open>A child process that fails ends the script with exit code 1.\<close>

lemma main_cli_review_fails:
  assumes "list_all (present penv) required_inputs"
  shows "exit_code (main_cli E (Returned v) (Failed e) dir penv) = 1"
proof -
  obtain prompt_text where
    "exit_code (main_cli E (Returned v) (Failed e) dir penv) =
       exit_code (run_review E (Failed e) dir
         (penv(''GH_TOKEN'' \<mapsto> env_text penv ''GITHUB_TOKEN'')) prompt_text)"
    using main_cli_present_run [OF assms, of E "Returned v" "Failed e" dir]
    by (auto simp: configure_cline_Returned [OF to_string_env_var] exit_code_def)
  then show ?thesis
    by (simp add: run_review_Failed)
qed

text \<open>Whatever the child processes do, the first command configures the command line.\<close>

lemma main_cli_present_commands:
  assumes "list_all (present penv) required_inputs"
  shows "commands (main_cli E configured reviewed dir penv) \<in>
     {[''cline config set api-key='' @ env_text penv ''ANTHROPIC_API_KEY''],
      [''cline config set api-key='' @ env_text penv ''ANTHROPIC_API_KEY'',
       review_command
         (case REVIEW_PROMPT E
            (element (map JStr (split_on (CHR ''/'') (env_text penv ''GITHUB_REPOSITORY''))) 0)
            (element (map JStr (split_on (CHR ''/'') (env_text penv ''GITHUB_REPOSITORY''))) 1)
            (env_var penv ''GITHUB_REPOSITORY'') (env_var penv ''PR_NUMBER'')
            (env_var penv ''HEAD_SHA'') of Inl e \<Rightarrow> [] | Inr prompt_text \<Rightarrow> prompt_text)]}"
proof -
  have configure: "commands
      (SetEnv ''GH_TOKEN'' (env_text penv ''GITHUB_TOKEN'')
         # ConsoleLog (''Starting AI-powered review for '' @ env_text penv ''GITHUB_REPOSITORY''
                       @ ''#'' @ env_text penv ''PR_NUMBER'')
         # ConsoleLog ''\<newline>=== Configuring Cline ===''
         # fst (configure_cline E configured (env_var penv ''ANTHROPIC_API_KEY'')),
       snd (configure_cline E configured (env_var penv ''ANTHROPIC_API_KEY''))) =
      [''cline config set api-key='' @ env_text penv ''ANTHROPIC_API_KEY'']"
    by (simp add: commands_fst commands_configure_cline [OF to_string_env_var])
  from main_cli_present_run [OF assms, of E configured reviewed dir]
  obtain prompt_text where prompt_text:
    "REVIEW_PROMPT E
       (element (map JStr (split_on (CHR ''/'') (env_text penv ''GITHUB_REPOSITORY''))) 0)
       (element (map JStr (split_on (CHR ''/'') (env_text penv ''GITHUB_REPOSITORY''))) 1)
       (env_var penv ''GITHUB_REPOSITORY'') (env_var penv ''PR_NUMBER'')
       (env_var penv ''HEAD_SHA'') = Inr prompt_text"
    and run: "main_cli E configured reviewed dir penv =
        and_then
          (SetEnv ''GH_TOKEN'' (env_text penv ''GITHUB_TOKEN'')
             # ConsoleLog (''Starting AI-powered review for '' @ env_text penv ''GITHUB_REPOSITORY''
                           @ ''#'' @ env_text penv ''PR_NUMBER'')
             # ConsoleLog ''\<newline>=== Configuring Cline ===''
             # fst (configure_cline E configured (env_var penv ''ANTHROPIC_API_KEY'')),
           snd (configure_cline E configured (env_var penv ''ANTHROPIC_API_KEY''))) (\<lambda>_.
        and_then (console_log ''\<newline>=== Starting PR Review ===\<newline>'') (\<lambda>_.
        run_review E reviewed dir (penv(''GH_TOKEN'' \<mapsto> env_text penv ''GITHUB_TOKEN''))
          prompt_text))"
    by (elim exE conjE)
  have "commands (main_cli E configured reviewed dir penv) =
      (case snd (configure_cline E configured (env_var penv ''ANTHROPIC_API_KEY'')) of
         Inl i \<Rightarrow> [''cline config set api-key='' @ env_text penv ''ANTHROPIC_API_KEY'']
       | Inr u \<Rightarrow> [''cline config set api-key='' @ env_text penv ''ANTHROPIC_API_KEY'',
                  review_command prompt_text])"
    unfolding run commands_and_then configure
    by (simp add: commands_run_review split: sum.splits)
  with prompt_text show ?thesis
    by (simp split: sum.splits)
qed

lemma main_cli_configure_fails:
  assumes "list_all (present penv) required_inputs"
  shows "exit_code (main_cli E (Failed e) reviewed dir penv) = 1"
    and "commands (main_cli E (Failed e) reviewed dir penv) =
      [''cline config set api-key='' @ env_text penv ''ANTHROPIC_API_KEY'']"
proof -
  let ?configure = "configure_cline E (Failed e) (env_var penv ''ANTHROPIC_API_KEY'')"
  have ends: "exit_code ?configure = 1"
    by (rule configure_cline_Failed(2) [OF to_string_env_var])
  then obtain i where i: "snd ?configure = Inl i" "exit_code ([], Inl i :: interrupt + unit) = 1"
    by (cases "snd ?configure") (auto simp: exit_code_def)
  note trace = configure_cline_Failed(1)
    [OF to_string_env_var [of E penv "''ANTHROPIC_API_KEY''"], of e]
  from main_cli_present_run [OF assms, of E "Failed e" reviewed dir] i
  show "exit_code (main_cli E (Failed e) reviewed dir penv) = 1"
    by (auto simp: exit_code_def)
  from main_cli_present_run [OF assms, of E "Failed e" reviewed dir] i trace
  show "commands (main_cli E (Failed e) reviewed dir penv) =
      [''cline config set api-key='' @ env_text penv ''ANTHROPIC_API_KEY'']"
    by auto
qed

lemma main_cli_configured_commands:
  assumes "list_all (present penv) required_inputs"
  shows "\<exists>prompt_text.
      REVIEW_PROMPT E
        (element (map JStr (split_on (CHR ''/'') (env_text penv ''GITHUB_REPOSITORY''))) 0)
        (element (map JStr (split_on (CHR ''/'') (env_text penv ''GITHUB_REPOSITORY''))) 1)
        (env_var penv ''GITHUB_REPOSITORY'') (env_var penv ''PR_NUMBER'')
        (env_var penv ''HEAD_SHA'') = Inr prompt_text
    \<and> commands (main_cli E (Returned v) reviewed dir penv) =
        [''cline config set api-key='' @ env_text penv ''ANTHROPIC_API_KEY'',
         review_command prompt_text]"
  using main_cli_present_run [OF assms, of E "Returned v" reviewed dir]
  by (auto simp: configure_cline_Returned [OF to_string_env_var] commands_run_review)

lemma main_cli_missing_commands:
  assumes "\<not> list_all (present penv) required_inputs"
  shows "commands (main_cli E configured reviewed dir penv) = []"
  using main_cli_missing_message [OF assms, of E configured reviewed dir] by auto

text \<open>
  A repository identifier without a separator is accepted here too, and the prompt of
  the review is built with a repository name that is \<open>undefined\<close>.
\<close>

lemma main_cli_repository_without_separator:
  assumes "list_all (present penv) required_inputs"
    and "penv ''GITHUB_REPOSITORY'' = Some repo_id"
    and "CHR ''/'' \<notin> set repo_id"
  shows "\<exists>prompt_text.
      REVIEW_PROMPT E (JStr repo_id) JUndefined (JStr repo_id)
        (env_var penv ''PR_NUMBER'') (env_var penv ''HEAD_SHA'') = Inr prompt_text
    \<and> occurs_in (''repos/'' @ repo_id @ ''/undefined/pulls/'') prompt_text
    \<and> commands (main_cli E (Returned v) reviewed dir penv) =
        [''cline config set api-key='' @ env_text penv ''ANTHROPIC_API_KEY'',
         review_command prompt_text]"
proof -
  have parts: "split_on (CHR ''/'') repo_id = [repo_id]"
    using assms(3) by (rule split_on_no_separator)
  have repo_text: "env_text penv ''GITHUB_REPOSITORY'' = repo_id"
    and repo_var: "env_var penv ''GITHUB_REPOSITORY'' = JStr repo_id"
    using assms(2) by (simp_all add: env_text_def env_var_def)
  obtain prompt_text where prompt_text:
    "REVIEW_PROMPT E (JStr repo_id) JUndefined (JStr repo_id)
       (env_var penv ''PR_NUMBER'') (env_var penv ''HEAD_SHA'') = Inr prompt_text"
    and run: "commands (main_cli E (Returned v) reviewed dir penv) =
        [''cline config set api-key='' @ env_text penv ''ANTHROPIC_API_KEY'',
         review_command prompt_text]"
    using main_cli_configured_commands [OF assms(1), of E v reviewed dir]
    by (auto simp: repo_text repo_var parts element_def)
  obtain body where body:
    "REVIEW_PROMPT E (JStr repo_id) JUndefined (JStr repo_id)
       (env_var penv ''PR_NUMBER'') (env_var penv ''HEAD_SHA'') = Inr body"
    "occurs_in (''repos/'' @ repo_id @ ''/'' @ ''undefined'' @ ''/pulls/'') body"
    using REVIEW_PROMPT_text [of E "JStr repo_id" repo_id JUndefined "''undefined''"
            "JStr repo_id" repo_id
            "env_var penv ''PR_NUMBER''" "env_text penv ''PR_NUMBER''"
            "env_var penv ''HEAD_SHA''" "env_text penv ''HEAD_SHA''"]
    by (auto simp: to_string_env_var)
  from prompt_text body(1) have "prompt_text = body"
    by simp
  with prompt_text run body show ?thesis
    by simp
qed

section \<open>The claims of the specification\<close>

subsection \<open>C1: a session that ends at the turn limit\<close>




subsection \<open>C2: a stream that closes without a result\<close>

text \<open>
  Claim C2 says that a stream that closes without a \<open>Result\<close> event gives the aborted
  outcome with the note \<^verbatim>\<open>stream ended without terminal result\<close> and a non-zero exit
  code. The script does not record whether a result was seen: when the loop ends it
  reports success. On the stream of a \<open>SystemInit\<close> and two \<open>Assistant\<close> events the exit
  code is 0, nothing is written to the standard error, and no line of the standard
  output contains the note.
\<close>

theorem stream_without_result_counterexample:
  "exit_code (main sample_engine
       (Stream (map encode
          [SystemInit ''m1'' ''/work'' [''Bash'', ''Read''] [],
           Assistant [Text ''Checking diff''],
           Assistant [Text ''Reading files'']]) Closed) ''/work'' sample_env) = 0
   \<and> stderr (main sample_engine
       (Stream (map encode
          [SystemInit ''m1'' ''/work'' [''Bash'', ''Read''] [],
           Assistant [Text ''Checking diff''],
           Assistant [Text ''Reading files'']]) Closed) ''/work'' sample_env) = []
   \<and> \<not> list_ex (occurs_in ''stream ended without terminal result'')
        (stdout (main sample_engine
           (Stream (map encode
              [SystemInit ''m1'' ''/work'' [''Bash'', ''Read''] [],
               Assistant [Text ''Checking diff''],
               Assistant [Text ''Reading files'']]) Closed) ''/work'' sample_env))"
proof -
  let ?events = "[SystemInit ''m1'' ''/work'' [''Bash'', ''Read''] [],
                  Assistant [Text ''Checking diff''], Assistant [Text ''Reading files'']]"
  have loop: "for_await (map encode ?events) Closed (on_message sample_engine) =
      (map ConsoleLog
         [''[System] Initialized'', ''  Model: m1'', ''  Working Directory: /work'',
          ''  Tools: Bash, Read'', ''  MCP Servers: none'',
          ''\<newline>[Assistant] Checking diff\<newline>'', ''\<newline>[Assistant] Reading files\<newline>''],
       Inr ())"
    by (subst for_await_encoded)
       (simp add: encoded_events join_with_def del: encode.simps encode_segment.simps)
  show ?thesis
    unfolding main_present_exit_code [OF sample_env_present]
      main_present_stderr [OF sample_env_present] main_present_stdout [OF sample_env_present] loop
    by (simp add: stdout_def env_text_def sample_env_def check_mark_def)
qed

text \<open>
  C2 as amended: for every stream of well-formed events that closes, with or without a
  \<open>Result\<close> event among them, and with every required input present, the standard output
  is the two opening lines, what each event logs, in order, and the line that the agent
  completed successfully; nothing is written to the standard error, and the exit code
  is 0.
\<close>

theorem stream_without_result_completes:
  assumes "list_all (present penv) required_inputs"
  shows "exit_code (main E (Stream (map encode events) Closed) dir penv) = 0
    \<and> stderr (main E (Stream (map encode events) Closed) dir penv) = []
    \<and> stdout (main E (Stream (map encode events) Closed) dir penv) =
        (''Starting AI-powered review for '' @ env_text penv ''GITHUB_REPOSITORY''
           @ ''#'' @ env_text penv ''PR_NUMBER'')
        # ''\<newline>=== Starting PR Review ===\<newline>''
        # concat (map (\<lambda>ev. stdout (on_message E (encode ev))) events)
        @ [''\<newline>'' @ check_mark @ '' PR Review Agent completed successfully'']"
  using main_encoded_exit_code [OF assms] main_encoded_stdout [OF assms]
    main_encoded_stderr [OF assms]
  by simp

theorem stream_without_result_completes_witness:
  "exit_code (main sample_engine
       (Stream (map encode [SystemInit ''m1'' ''/work'' [''Bash''] [''github''],
                            Assistant [Text ''Checking diff'']]) Closed)
       ''/work'' sample_env) = 0
   \<and> stdout (main sample_engine
       (Stream (map encode [SystemInit ''m1'' ''/work'' [''Bash''] [''github''],
                            Assistant [Text ''Checking diff'']]) Closed)
       ''/work'' sample_env) =
      [''Starting AI-powered review for acme/widgets#7'',
       ''\<newline>=== Starting PR Review ===\<newline>'',
       ''[System] Initialized'', ''  Model: m1'', ''  Working Directory: /work'',
       ''  Tools: Bash'', ''  MCP Servers: github'',
       ''\<newline>[Assistant] Checking diff\<newline>'',
       ''\<newline>'' @ check_mark @ '' PR Review Agent completed successfully'']"
  using stream_without_result_completes [OF sample_env_present, of sample_engine
          "[SystemInit ''m1'' ''/work'' [''Bash''] [''github''], Assistant [Text ''Checking diff'']]"
          "''/work''"]
  by (simp add: env_text_def sample_env_def encoded_events join_with_def stdout_def
        del: encode.simps encode_segment.simps)

subsection \<open>C3: a malformed event\<close>

text \<open>
  Claim C3 says that a malformed event fails in isolation: it is logged, skipped, and
  the rest of the stream is consumed. The script has one \<open>try\<close> around the whole session
  and none around an event. On the stream of a result message without a cost, followed
  by an assistant message, the handler stops at \<open>toFixed\<close>, the error goes to the
  standard error as fatal, the exit code is 1, and the assistant message is never
  logged.
\<close>

theorem malformed_event_counterexample:
  "exit_code (main sample_engine
       (Stream [JObj [(''type'', JStr ''result''), (''subtype'', JStr ''success'')],
                encode (Assistant [Text ''Posting the review''])] Closed)
       ''/work'' sample_env) = 1
   \<and> stderr (main sample_engine
       (Stream [JObj [(''type'', JStr ''result''), (''subtype'', JStr ''success'')],
                encode (Assistant [Text ''Posting the review''])] Closed)
       ''/work'' sample_env) = [ConsoleErrorWith ''Fatal error:'' TypeError]
   \<and> stdout (main sample_engine
       (Stream [JObj [(''type'', JStr ''result''), (''subtype'', JStr ''success'')],
                encode (Assistant [Text ''Posting the review''])] Closed)
       ''/work'' sample_env) =
      [''Starting AI-powered review for acme/widgets#7'',
       ''\<newline>=== Starting PR Review ===\<newline>'',
       ''\<newline>=== Review Completed ==='', ''Duration: undefinedms'', ''Turns: undefined'']"
proof -
  let ?bad = "JObj [(''type'', JStr ''result''), (''subtype'', JStr ''success'')]"
  have "for_await ([] @ ?bad # [encode (Assistant [Text ''Posting the review''])]) Closed
          (on_message sample_engine) =
        (concat (map (\<lambda>m. fst (on_message sample_engine m)) []) @ fst (on_message sample_engine ?bad),
         Inl (Throw TypeError))"
    by (rule for_await_interrupted) (simp_all add: result_without_cost)
  then have loop: "for_await [?bad, encode (Assistant [Text ''Posting the review''])] Closed
          (on_message sample_engine) =
        (map ConsoleLog
          [''\<newline>=== Review Completed ==='', ''Duration: undefinedms'', ''Turns: undefined''],
         Inl (Throw TypeError))"
    by (simp add: result_without_cost del: encode.simps)
  show ?thesis
    unfolding main_present_exit_code [OF sample_env_present]
      main_present_stderr [OF sample_env_present] main_present_stdout [OF sample_env_present] loop
    by (simp add: stdout_def env_text_def sample_env_def)
qed

text \<open>
  C3 as amended: when the handling of a message throws, and the messages before it were
  handled, then, with every required input present, the standard output is the two
  opening lines, what the earlier messages logged, and what the failing handler had
  logged before it threw; the error is written to the standard error after
  \<^verbatim>\<open>Fatal error:\<close>; the exit code is 1; and none of this depends on the messages that
  follow in the stream or on how the stream ends: they are not consumed.
\<close>

theorem malformed_event_aborts_session:
  assumes "list_all (present penv) required_inputs"
    and "list_all (\<lambda>m. snd (on_message E m) = Inr ()) earlier"
    and "snd (on_message E bad) = Inl (Throw e)"
  shows "exit_code (main E (Stream (earlier @ bad # later) ending) dir penv) = 1
    \<and> stderr (main E (Stream (earlier @ bad # later) ending) dir penv) =
        [ConsoleErrorWith ''Fatal error:'' e]
    \<and> stdout (main E (Stream (earlier @ bad # later) ending) dir penv) =
        (''Starting AI-powered review for '' @ env_text penv ''GITHUB_REPOSITORY''
           @ ''#'' @ env_text penv ''PR_NUMBER'')
        # ''\<newline>=== Starting PR Review ===\<newline>''
        # concat (map (\<lambda>m. stdout (on_message E m)) earlier)
        @ stdout (on_message E bad)"
  unfolding main_present_exit_code [OF assms(1)] main_present_stderr [OF assms(1)]
    main_present_stdout [OF assms(1)] for_await_interrupted [OF assms(2,3)]
  by (simp add: stdout_append [where r' = "Inr ()" and r'' = "Inr ()"] stdout_concat stdout_fst)

theorem malformed_event_aborts_session_witness:
  "exit_code (main sample_engine
       (Stream ([encode (Assistant [Text ''Checking diff''])]
                @ JObj [(''type'', JStr ''assistant'')]
                # [encode (Assistant [Text ''Posting the review''])]) Closed)
       ''/work'' sample_env) = 1
   \<and> stderr (main sample_engine
       (Stream ([encode (Assistant [Text ''Checking diff''])]
                @ JObj [(''type'', JStr ''assistant'')]
                # [encode (Assistant [Text ''Posting the review''])]) Closed)
       ''/work'' sample_env) = [ConsoleErrorWith ''Fatal error:'' TypeError]
   \<and> stdout (main sample_engine
       (Stream ([encode (Assistant [Text ''Checking diff''])]
                @ JObj [(''type'', JStr ''assistant'')]
                # [encode (Assistant [Text ''Posting the review''])]) Closed)
       ''/work'' sample_env) =
      [''Starting AI-powered review for acme/widgets#7'',
       ''\<newline>=== Starting PR Review ===\<newline>'',
       ''\<newline>[Assistant] Checking diff\<newline>'']"
proof -
  have bad: "on_message sample_engine (JObj [(''type'', JStr ''assistant'')]) = ([], Inl (Throw TypeError))"
    by (simp add: on_message_def on_assistant_def)
  have good: "on_message sample_engine (encode (Assistant [Text ''Checking diff''])) =
      ([ConsoleLog ''\<newline>[Assistant] Checking diff\<newline>''], Inr ())"
    by (simp add: encoded_events del: encode.simps encode_segment.simps)
  show ?thesis
    using malformed_event_aborts_session [OF sample_env_present, of sample_engine
            "[encode (Assistant [Text ''Checking diff''])]" "JObj [(''type'', JStr ''assistant'')]"
            TypeError "[encode (Assistant [Text ''Posting the review''])]" Closed "''/work''"]
    by (simp add: bad good env_text_def sample_env_def stdout_def del: encode.simps)
qed

subsection \<open>C4: the required inputs\<close>

text \<open>
  Claim C4: when one of the five required inputs is absent or empty, the script reports
  a configuration error on the standard error and exits with code 1, and that is all it
  does: no session is started. When all five are present and not empty, the session is
  started. The command-line script does the same as the SDK script when an input is
  missing, and runs no command; with all five present it configures the command line
  and, when that went well, gives it the review.
\<close>

theorem required_inputs_validated:
  "(\<not> list_all (present penv) required_inputs \<longrightarrow>
      exit_code (main E runtime dir penv) = 1
      \<and> queries (main E runtime dir penv) = []
      \<and> fst (main E runtime dir penv) \<in>
           {[ConsoleError ''Error: ANTHROPIC_API_KEY environment variable is required''],
            [ConsoleError ''Error: GITHUB_TOKEN environment variable is required''],
            [ConsoleError ''Error: GitHub environment variables missing'']}
      \<and> main_cli E configured reviewed dir penv = main E runtime dir penv
      \<and> commands (main_cli E configured reviewed dir penv) = [])
   \<and> (list_all (present penv) required_inputs \<longrightarrow>
        length (queries (main E runtime dir penv)) = 1
        \<and> commands (main_cli E configured reviewed dir penv) \<noteq> []
        \<and> length (commands (main_cli E (Returned v) reviewed dir penv)) = 2)"
proof (intro conjI impI)
  assume missing: "\<not> list_all (present penv) required_inputs"
  show "exit_code (main E runtime dir penv) = 1"
    using main_missing_message [OF missing, of E runtime dir] by auto
  show "queries (main E runtime dir penv) = []"
    by (rule queries_main_missing [OF missing])
  show "fst (main E runtime dir penv) \<in>
           {[ConsoleError ''Error: ANTHROPIC_API_KEY environment variable is required''],
            [ConsoleError ''Error: GITHUB_TOKEN environment variable is required''],
            [ConsoleError ''Error: GitHub environment variables missing'']}"
    using main_missing_message [OF missing, of E runtime dir] by auto
  show "main_cli E configured reviewed dir penv = main E runtime dir penv"
    by (rule main_cli_missing_main [OF missing])
  show "commands (main_cli E configured reviewed dir penv) = []"
    by (rule main_cli_missing_commands [OF missing])
next
  assume valid: "list_all (present penv) required_inputs"
  then show "length (queries (main E runtime dir penv)) = 1"
    using queries_main_present [of penv E runtime dir] by auto
  show "commands (main_cli E configured reviewed dir penv) \<noteq> []"
    using main_cli_present_commands [OF valid, of E configured reviewed dir] by auto
  show "length (commands (main_cli E (Returned v) reviewed dir penv)) = 2"
    using main_cli_configured_commands [OF valid, of E v reviewed dir] by auto
qed

theorem required_inputs_validated_witness:
  "exit_code (main sample_engine (Stream [] Closed) ''/work'' (sample_env(''PR_NUMBER'' \<mapsto> ''''))) = 1
   \<and> queries (main sample_engine (Stream [] Closed) ''/work'' (sample_env(''PR_NUMBER'' \<mapsto> ''''))) = []
   \<and> commands (main_cli sample_engine (Returned JUndefined) (Returned (JStr ''Approved''))
        ''/work'' (sample_env(''PR_NUMBER'' \<mapsto> ''''))) = []
   \<and> exit_code (main sample_engine (Stream [] Closed) ''/work'' (sample_env(''HEAD_SHA'' := None))) = 1
   \<and> length (queries (main sample_engine (Stream [] Closed) ''/work'' sample_env)) = 1
   \<and> length (commands (main_cli sample_engine (Returned JUndefined) (Returned (JStr ''Approved''))
        ''/work'' sample_env)) = 2"
proof -
  have empty: "\<not> list_all (present (sample_env(''PR_NUMBER'' \<mapsto> ''''))) required_inputs"
    and absent: "\<not> list_all (present (sample_env(''HEAD_SHA'' := None))) required_inputs"
    and valid: "list_all (present sample_env) required_inputs"
    by (simp_all add: required_inputs_def present_def sample_env_def)
  note checked = required_inputs_validated
    [where E = sample_engine and runtime = "Stream [] Closed" and dir = "''/work''"
       and configured = "Returned JUndefined" and reviewed = "Returned (JStr ''Approved'')"
       and v = JUndefined]
  from checked [where penv = "sample_env(''PR_NUMBER'' \<mapsto> '''')"] empty
  have "exit_code (main sample_engine (Stream [] Closed) ''/work'' (sample_env(''PR_NUMBER'' \<mapsto> ''''))) = 1"
    and "queries (main sample_engine (Stream [] Closed) ''/work'' (sample_env(''PR_NUMBER'' \<mapsto> ''''))) = []"
    and "commands (main_cli sample_engine (Returned JUndefined) (Returned (JStr ''Approved''))
        ''/work'' (sample_env(''PR_NUMBER'' \<mapsto> ''''))) = []"
    by blast+
  moreover from checked [where penv = "sample_env(''HEAD_SHA'' := None)"] absent
  have "exit_code (main sample_engine (Stream [] Closed) ''/work'' (sample_env(''HEAD_SHA'' := None))) = 1"
    by blast
  moreover from checked [where penv = sample_env] valid
  have "length (queries (main sample_engine (Stream [] Closed) ''/work'' sample_env)) = 1"
    and "length (commands (main_cli sample_engine (Returned JUndefined) (Returned (JStr ''Approved''))
        ''/work'' sample_env)) = 2"
    by blast+
  ultimately show ?thesis
    by (intro conjI)
qed

subsection \<open>C5: replaying a sequence of events\<close>



subsection \<open>C6: the scenario of a successful review\<close>

text \<open>
  Claim C6: on the stream of the three events of the scenario, and with every required
  input present, the run takes the success path: the standard output has the lines of
  the three events in the order of their arrival, between the opening lines and the
  line of completion; the result is logged with its duration of 4200 ms, its 3 turns
  and its cost of 0.12 dollars, printed with four decimals; nothing is written to the
  standard error; and the exit code is 0. The cost is any number that rounds to 0.12
  at four decimals, as the double nearest to 0.12 does.
\<close>

theorem successful_review_scenario:
  assumes "list_all (present penv) required_inputs"
    and "\<bar>cost - 12 / 100\<bar> < 1 / 20000"
  shows \<open>exit_code (main E
       (Stream (map encode
          [SystemInit ''m1'' working_directory [''Bash'', ''Read''] [],
           Assistant [Text ''Checking diff'',
                      ToolInvocation ''Bash'' (JObj [(''cmd'', JStr ''gh api ...'')])],
           Result success 4200 3 cost (Some ''Approved, no issues'') 0]) Closed) dir penv) = 0
    \<and> stderr (main E
       (Stream (map encode
          [SystemInit ''m1'' working_directory [''Bash'', ''Read''] [],
           Assistant [Text ''Checking diff'',
                      ToolInvocation ''Bash'' (JObj [(''cmd'', JStr ''gh api ...'')])],
           Result success 4200 3 cost (Some ''Approved, no issues'') 0]) Closed) dir penv) = []
    \<and> stdout (main E
       (Stream (map encode
          [SystemInit ''m1'' working_directory [''Bash'', ''Read''] [],
           Assistant [Text ''Checking diff'',
                      ToolInvocation ''Bash'' (JObj [(''cmd'', JStr ''gh api ...'')])],
           Result success 4200 3 cost (Some ''Approved, no issues'') 0]) Closed) dir penv) =
       [''Starting AI-powered review for '' @ env_text penv ''GITHUB_REPOSITORY''
          @ ''#'' @ env_text penv ''PR_NUMBER'',
        ''\<newline>=== Starting PR Review ===\<newline>'']
       @ [''[System] Initialized'', ''  Model: m1'',
          ''  Working Directory: '' @ working_directory,
          ''  Tools: Bash, Read'', ''  MCP Servers: none'']
       @ [''\<newline>[Assistant] Checking diff\<newline>'', ''\<newline>[Tool Use] Bash'',
          ''{\<newline>  "cmd": "gh api ..."\<newline>}'']
       @ [''\<newline>=== Review Completed ==='', ''Duration: 4200ms'', ''Turns: 3'',
          ''Cost: $0.1200'', ''Status: success'', ''\<newline>Result: Approved, no issues'']
       @ [''\<newline>'' @ check_mark @ '' PR Review Agent completed successfully'']\<close>
proof -
  let ?events = \<open>[SystemInit ''m1'' working_directory [''Bash'', ''Read''] [],
                  Assistant [Text ''Checking diff'',
                             ToolInvocation ''Bash'' (JObj [(''cmd'', JStr ''gh api ...'')])],
                  Result success 4200 3 cost (Some ''Approved, no issues'') 0]\<close>
  have init: "stdout (on_message E (encode (SystemInit ''m1'' working_directory [''Bash'', ''Read''] []))) =
      [''[System] Initialized'', ''  Model: m1'', ''  Working Directory: '' @ working_directory,
       ''  Tools: Bash, Read'', ''  MCP Servers: none'']"
    by (simp add: encoded_events join_with_def stdout_def del: encode.simps)
  have assistant: \<open>stdout (on_message E (encode (Assistant [Text ''Checking diff'',
          ToolInvocation ''Bash'' (JObj [(''cmd'', JStr ''gh api ...'')])]))) =
      [''\<newline>[Assistant] Checking diff\<newline>'', ''\<newline>[Tool Use] Bash'',
       ''{\<newline>  "cmd": "gh api ..."\<newline>}'']\<close>
    by (simp add: encoded_events quote_json_string_def quote_json_char_def line_break_def
          join_with_def replicate_numeral stdout_def del: encode.simps encode_segment.simps)
  have result: "stdout (on_message E (encode (Result success 4200 3 cost (Some ''Approved, no issues'') 0))) =
      [''\<newline>=== Review Completed ==='', ''Duration: 4200ms'', ''Turns: 3'',
       ''Cost: $0.1200'', ''Status: success'', ''\<newline>Result: Approved, no issues'']"
    by (simp add: on_result_encode toFixed4_twelve_cents [OF assms(2)] stdout_def comp_def
          number_to_string_def is_safe_integer_def show_int_def show_nat_digit show_nat_more
          digit_char_def del: encode.simps)
  show ?thesis
    using main_encoded_exit_code [OF assms(1), of E ?events dir]
      main_encoded_stdout [OF assms(1), of E ?events dir]
      main_encoded_stderr [OF assms(1), of E ?events dir]
    by (simp add: init assistant result del: encode.simps)
qed

theorem successful_review_scenario_witness:
  \<open>exit_code (main sample_engine
       (Stream (map encode
          [SystemInit ''m1'' ''/work'' [''Bash'', ''Read''] [],
           Assistant [Text ''Checking diff'',
                      ToolInvocation ''Bash'' (JObj [(''cmd'', JStr ''gh api ...'')])],
           Result success 4200 3 (1080863910568919 / 9007199254740992)
             (Some ''Approved, no issues'') 0]) Closed) ''/work'' sample_env) = 0
   \<and> stdout (main sample_engine
       (Stream (map encode
          [SystemInit ''m1'' ''/work'' [''Bash'', ''Read''] [],
           Assistant [Text ''Checking diff'',
                      ToolInvocation ''Bash'' (JObj [(''cmd'', JStr ''gh api ...'')])],
           Result success 4200 3 (1080863910568919 / 9007199254740992)
             (Some ''Approved, no issues'') 0]) Closed) ''/work'' sample_env) =
       [''Starting AI-powered review for acme/widgets#7'',
        ''\<newline>=== Starting PR Review ===\<newline>'',
        ''[System] Initialized'', ''  Model: m1'', ''  Working Directory: /work'',
        ''  Tools: Bash, Read'', ''  MCP Servers: none'',
        ''\<newline>[Assistant] Checking diff\<newline>'', ''\<newline>[Tool Use] Bash'',
        ''{\<newline>  "cmd": "gh api ..."\<newline>}'',
        ''\<newline>=== Review Completed ==='', ''Duration: 4200ms'', ''Turns: 3'',
        ''Cost: $0.1200'', ''Status: success'', ''\<newline>Result: Approved, no issues'',
        ''\<newline>'' @ check_mark @ '' PR Review Agent completed successfully'']\<close>
proof -
  have near: "\<bar>(1080863910568919 / 9007199254740992 :: rat) - 12 / 100\<bar> < 1 / 20000"
    by simp
  show ?thesis
    using successful_review_scenario [OF sample_env_present near, of sample_engine "''/work''" "''/work''"]
    by (simp add: env_text_def sample_env_def del: encode.simps)
qed

subsection \<open>C7: the one write to the environment\<close>

text \<open>
  Claim C7: the script writes to the environment once, the platform token under the
  name \<^verbatim>\<open>GH_TOKEN\<close>, and only when the required inputs are present. From the call of
  \<open>query\<close> on there is no write to the environment, and the environment that the session
  is started with already holds the token.
\<close>

theorem credential_is_set_before_the_session_starts:
  "filter is_SetEnv (fst (main E runtime dir penv)) =
     (if list_all (present penv) required_inputs
      then [SetEnv ''GH_TOKEN'' (env_text penv ''GITHUB_TOKEN'')] else [])
   \<and> filter is_SetEnv (from_session_start (fst (main E runtime dir penv))) = []
   \<and> (\<forall>opts \<in> set (queries (main E runtime dir penv)).
        env opts = penv(''GH_TOKEN'' \<mapsto> env_text penv ''GITHUB_TOKEN''))"
proof (cases "list_all (present penv) required_inputs")
  case True
  obtain sp prompt_text rest where trace:
    "fst (main E runtime dir penv) =
       SetEnv ''GH_TOKEN'' (env_text penv ''GITHUB_TOKEN'')
       # ConsoleLog (''Starting AI-powered review for '' @ env_text penv ''GITHUB_REPOSITORY''
                     @ ''#'' @ env_text penv ''PR_NUMBER'')
       # Query (review_query prompt_text sp dir
                  (penv(''GH_TOKEN'' \<mapsto> env_text penv ''GITHUB_TOKEN'')))
       # rest"
    and rest: "filter is_SetEnv rest = []" "filter is_Query rest = []"
    using main_present_trace [OF True, of E runtime dir] by blast
  have quiet: "concat (map (\<lambda>e. case e of Query opts \<Rightarrow> [opts] | _ \<Rightarrow> []) rest) = []"
    using rest(2) by (induction rest) (auto split: effect.splits if_splits)
  have "queries (main E runtime dir penv) =
      [review_query prompt_text sp dir (penv(''GH_TOKEN'' \<mapsto> env_text penv ''GITHUB_TOKEN''))]"
    by (simp add: queries_def trace quiet)
  then show ?thesis
    using True by (simp add: trace rest from_session_start_trace review_query_def)
next
  case False
  then show ?thesis
    using main_missing_message [OF False, of E runtime dir] queries_main_missing [OF False, of E runtime dir]
    by (auto simp: from_session_start_def)
qed

theorem credential_is_set_before_the_session_starts_witness:
  "filter is_SetEnv (fst (main sample_engine (StartFails (Thrown (JStr ''no runtime''))) ''/work'' sample_env)) =
     [SetEnv ''GH_TOKEN'' ''ghs-token'']
   \<and> filter is_SetEnv (from_session_start
         (fst (main sample_engine (StartFails (Thrown (JStr ''no runtime''))) ''/work'' sample_env))) = []
   \<and> map (\<lambda>opts. env opts ''GH_TOKEN'')
         (queries (main sample_engine (StartFails (Thrown (JStr ''no runtime''))) ''/work'' sample_env)) =
       [Some ''ghs-token'']"
proof -
  let ?run = "main sample_engine (StartFails (Thrown (JStr ''no runtime''))) ''/work'' sample_env"
  have token: "env_text sample_env ''GITHUB_TOKEN'' = ''ghs-token''"
    by (simp add: env_text_def sample_env_def)
  note facts = credential_is_set_before_the_session_starts [of sample_engine
      "StartFails (Thrown (JStr ''no runtime''))" "''/work''" sample_env, unfolded token]
  obtain opts where session: "queries ?run = [opts]"
    using queries_main_present [OF sample_env_present, of sample_engine
            "StartFails (Thrown (JStr ''no runtime''))" "''/work''"]
    by blast
  then have "env opts = sample_env(''GH_TOKEN'' \<mapsto> ''ghs-token'')"
    using facts by simp
  then have "map (\<lambda>opts. env opts ''GH_TOKEN'') (queries ?run) = [Some ''ghs-token'']"
    by (simp add: session)
  then show ?thesis
    using facts by (simp add: sample_env_present)
qed

subsection \<open>C8: one session for one request\<close>

text \<open>
  Claim C8: whatever the agent runtime does (it fails to start, its stream closes, or
  breaks, after any messages), a run of the script calls \<open>query\<close> at most once, and it
  ends in one of two ways: at the end of the script, or by \<open>process.exit(1)\<close>. No
  exception escapes, and nothing is tried again.
\<close>

theorem at_most_one_session:
  "length (queries (main E runtime dir penv)) \<le> 1
   \<and> (snd (main E runtime dir penv) = Inr () \<or> snd (main E runtime dir penv) = Inl (Exit 1))"
proof (cases "list_all (present penv) required_inputs")
  case True
  then show ?thesis
    using main_ends [of E runtime dir penv] queries_main_present [of penv E runtime dir]
    by auto
next
  case False
  then show ?thesis
    using main_ends [of E runtime dir penv] by (simp add: queries_main_missing)
qed

theorem at_most_one_session_witness:
  "length (queries (main sample_engine
       (Stream [encode (Assistant [Text ''Checking diff''])] (Broken (Thrown (JStr ''connection lost''))))
       ''/work'' sample_env)) \<le> 1"
  using at_most_one_session [of sample_engine
          "Stream [encode (Assistant [Text ''Checking diff''])] (Broken (Thrown (JStr ''connection lost'')))"
          "''/work''" sample_env]
  by blast

subsection \<open>C9: an assistant event without segments\<close>

text \<open>
  Claim C9: an \<open>Assistant\<close> event with no segments is handled without an exception and
  writes nothing; a log written so far is left as it is, and a stream with such an
  event in it is processed as the stream without it.
\<close>

theorem empty_assistant_event_is_noop:
  "on_message E (encode (Assistant [])) = ([], Inr ())
   \<and> and_then (log0, Inr ()) (\<lambda>_. on_message E (encode (Assistant []))) = (log0, Inr ())
   \<and> for_each (before @ encode (Assistant []) # after) (on_message E) =
       for_each (before @ after) (on_message E)"
proof -
  have noop: "on_message E (encode (Assistant [])) = done_with ()"
    by (simp add: on_message_def on_assistant_def)
  show ?thesis
    by (simp add: for_each_append noop del: encode.simps) (simp add: done_with_def)
qed

theorem empty_assistant_event_is_noop_witness:
  "for_each ([encode (Assistant [Text ''Checking diff''])] @ encode (Assistant [])
             # [encode (Assistant [Text ''Posting the review''])]) (on_message sample_engine) =
   for_each ([encode (Assistant [Text ''Checking diff''])]
             @ [encode (Assistant [Text ''Posting the review''])]) (on_message sample_engine)"
  using empty_assistant_event_is_noop [of sample_engine]
  by blast

subsection \<open>C10: a repository identifier without a separator\<close>

text \<open>
  Claim C10: a repository identifier that is not empty and has no \<^verbatim>\<open>/\<close> in it, such as
  \<^verbatim>\<open>foo\<close>, passes the validation. The split then gives one part only, the repository
  name is \<open>undefined\<close>, and the session is started with a system prompt built from it:
  the text \<^verbatim>\<open>repos/foo/undefined/pulls/\<close> occurs in it. In the command-line script the
  same text occurs in the prompt of the review, which is given to the command line once
  it is configured.
\<close>

theorem repository_without_separator_is_accepted:
  assumes "list_all (present penv) required_inputs"
    and "penv ''GITHUB_REPOSITORY'' = Some repo_id"
    and "CHR ''/'' \<notin> set repo_id"
  shows "element (map JStr (split_on (CHR ''/'') repo_id)) 1 = JUndefined
    \<and> (\<exists>text. SYSTEM_PROMPT E (JStr repo_id) JUndefined
                 (env_var penv ''PR_NUMBER'') (env_var penv ''HEAD_SHA'') = Inr text
          \<and> map systemPrompt (queries (main E runtime dir penv)) = [text]
          \<and> occurs_in (''repos/'' @ repo_id @ ''/undefined/pulls/'') text)
    \<and> (\<exists>prompt_text. REVIEW_PROMPT E (JStr repo_id) JUndefined (JStr repo_id)
                 (env_var penv ''PR_NUMBER'') (env_var penv ''HEAD_SHA'') = Inr prompt_text
          \<and> occurs_in (''repos/'' @ repo_id @ ''/undefined/pulls/'') prompt_text
          \<and> commands (main_cli E (Returned v) reviewed dir penv) =
               [''cline config set api-key='' @ env_text penv ''ANTHROPIC_API_KEY'',
                review_command prompt_text])"
proof -
  have parts: "split_on (CHR ''/'') repo_id = [repo_id]"
    using assms(3) by (rule split_on_no_separator)
  have repo_text: "env_text penv ''GITHUB_REPOSITORY'' = repo_id"
    using assms(2) by (simp add: env_text_def)
  obtain sp prompt_text where sp:
    "SYSTEM_PROMPT E (JStr repo_id) JUndefined
       (env_var penv ''PR_NUMBER'') (env_var penv ''HEAD_SHA'') = Inr sp"
    and session: "queries (main E runtime dir penv) =
       [review_query prompt_text sp dir (penv(''GH_TOKEN'' \<mapsto> env_text penv ''GITHUB_TOKEN''))]"
    using queries_main_present [OF assms(1), of E runtime dir]
    by (auto simp: repo_text parts element_def)
  obtain body where body:
    "SYSTEM_PROMPT E (JStr repo_id) JUndefined
       (env_var penv ''PR_NUMBER'') (env_var penv ''HEAD_SHA'') = Inr body"
    "occurs_in (''repos/'' @ repo_id @ ''/'' @ ''undefined'' @ ''/pulls/'') body"
    using SYSTEM_PROMPT_text [of E "JStr repo_id" repo_id JUndefined "''undefined''"
            "env_var penv ''PR_NUMBER''" "env_text penv ''PR_NUMBER''"
            "env_var penv ''HEAD_SHA''" "env_text penv ''HEAD_SHA''"]
    by (auto simp: to_string_env_var)
  from sp body(1) have "sp = body"
    by simp
  with session body have sdk:
    "element (map JStr (split_on (CHR ''/'') repo_id)) 1 = JUndefined
     \<and> (\<exists>text. SYSTEM_PROMPT E (JStr repo_id) JUndefined
                 (env_var penv ''PR_NUMBER'') (env_var penv ''HEAD_SHA'') = Inr text
          \<and> map systemPrompt (queries (main E runtime dir penv)) = [text]
          \<and> occurs_in (''repos/'' @ repo_id @ ''/undefined/pulls/'') text)"
    by (simp add: parts element_def review_query_def)
  show ?thesis
    using sdk main_cli_repository_without_separator [OF assms, of E v reviewed dir]
    by (intro conjI) (elim conjE, assumption)+
qed

theorem repository_without_separator_is_accepted_witness:
  "list_all (present (sample_env(''GITHUB_REPOSITORY'' \<mapsto> ''foo''))) required_inputs
   \<and> (\<exists>text. map systemPrompt (queries (main sample_engine (Stream [] Closed) ''/work''
                 (sample_env(''GITHUB_REPOSITORY'' \<mapsto> ''foo'')))) = [text]
          \<and> occurs_in ''repos/foo/undefined/pulls/'' text)
   \<and> (\<exists>prompt_text.
          commands (main_cli sample_engine (Returned JUndefined) (Returned (JStr ''Approved''))
            ''/work'' (sample_env(''GITHUB_REPOSITORY'' \<mapsto> ''foo''))) =
            [''cline config set api-key=sk-key'', review_command prompt_text]
          \<and> occurs_in ''repos/foo/undefined/pulls/'' prompt_text)"
proof -
  let ?penv = "sample_env(''GITHUB_REPOSITORY'' \<mapsto> ''foo'')"
  have valid: "list_all (present ?penv) required_inputs"
    by (simp add: required_inputs_def present_def sample_env_def)
  have repo: "?penv ''GITHUB_REPOSITORY'' = Some ''foo''"
    by simp
  have no_separator: "CHR ''/'' \<notin> set ''foo''"
    by simp
  have needle: "''repos/'' @ ''foo'' @ ''/undefined/pulls/'' = ''repos/foo/undefined/pulls/''"
    by simp
  have command: "''cline config set api-key='' @ env_text ?penv ''ANTHROPIC_API_KEY'' =
      ''cline config set api-key=sk-key''"
    by (simp add: env_text_def sample_env_def)
  note accepted = repository_without_separator_is_accepted
    [OF valid repo no_separator, of sample_engine "Stream [] Closed" "''/work''"
       JUndefined "Returned (JStr ''Approved'')", unfolded needle command]
  from accepted [THEN conjunct2, THEN conjunct1] obtain body where
    "map systemPrompt (queries (main sample_engine (Stream [] Closed) ''/work'' ?penv)) = [body]"
    and "occurs_in ''repos/foo/undefined/pulls/'' body"
    by (elim exE conjE)
  then have sdk: "\<exists>text. map systemPrompt (queries (main sample_engine (Stream [] Closed) ''/work''
                 ?penv)) = [text] \<and> occurs_in ''repos/foo/undefined/pulls/'' text"
    by (intro conjI exI [of _ body])
  from accepted [THEN conjunct2, THEN conjunct2] obtain prompt_text where
    "commands (main_cli sample_engine (Returned JUndefined) (Returned (JStr ''Approved''))
       ''/work'' ?penv) = [''cline config set api-key=sk-key'', review_command prompt_text]"
    and "occurs_in ''repos/foo/undefined/pulls/'' prompt_text"
    by (elim exE conjE)
  then have cli: "\<exists>prompt_text.
      commands (main_cli sample_engine (Returned JUndefined) (Returned (JStr ''Approved''))
        ''/work'' ?penv) = [''cline config set api-key=sk-key'', review_command prompt_text]
      \<and> occurs_in ''repos/foo/undefined/pulls/'' prompt_text"
    by (intro conjI exI [of _ prompt_text])
  from valid sdk cli show ?thesis
    by (intro conjI)
qed

end
